theory Spec2Isabelle
  imports Complex_Main "HOL-Library.Multiset" "HOL-Library.Sublist" "HOL-Library.Char_ord"
    "HOL-Library.List_Lexorder"
begin

section \<open>Python values and exceptions\<close>

text \<open>
  The dashboard script \<^verbatim>\<open>app.py\<close> is a sequence of pandas table operations. A table is
  modelled as the list of its rows, a row as a record of the columns the script reads, a
  missing cell (NaN, NaT, None) as \<open>None\<close>, and an uncaught Python exception as the
  left summand of a sum type.
\<close>

datatype py_error = IndexError | ZeroDivisionError | ReError | NotModelled

text \<open>
  \<open>ReError\<close> is \<^verbatim>\<open>re.error\<close>, raised when a pattern does not compile. \<open>NotModelled\<close> is
  not a Python exception: it marks a run that leaves the part of the regular-expression
  syntax modelled below, and no theorem says anything about such a run.
\<close>

text \<open>Python's \<^verbatim>\<open>a / b\<close> on two \<^verbatim>\<open>int\<close>s: true division, raising on a zero divisor.\<close>

definition py_truediv :: "int \<Rightarrow> int \<Rightarrow> py_error + rat" where
  "py_truediv a b = (if b = 0 then Inl ZeroDivisionError else Inr (of_int a / of_int b))"

text \<open>\<^verbatim>\<open>.iloc[0]\<close> on a selection: the first row, IndexError when there is none.\<close>

definition iloc0 :: "'a list \<Rightarrow> py_error + 'a" where
  "iloc0 xs = (case xs of [] \<Rightarrow> Inl IndexError | x # _ \<Rightarrow> Inr x)"

section \<open>Sales Normalizer: \<^verbatim>\<open>process_sales_data\<close>\<close>

text \<open>
  A parsed timestamp, with the components the format \<^verbatim>\<open>%Y/%m/%d %H:%M:%S+00\<close> yields.
  \<^verbatim>\<open>.dt.year\<close> and \<^verbatim>\<open>.dt.month\<close> are the projections \<open>dt_year\<close> and \<open>dt_month\<close>.
\<close>

record timestamp =
  dt_year :: int
  dt_month :: int
  dt_day :: int
  dt_hour :: int
  dt_minute :: int
  dt_second :: int


record sale =
  SaleParcelNumber :: string
  SaleDate :: timestamp
  SaleAmount :: int
  Year :: int
  Month :: int




section \<open>Headline affordability metrics\<close>

text \<open>Lines 136-137.\<close>

definition median_income :: int where
  "median_income = 69829"

definition affordable_home_price :: int where
  "affordable_home_price = median_income * 3"

text \<open>
  \<^verbatim>\<open>Series.median()\<close>: the middle value of the sorted values, the mean of the two middle
  values for an even count, NaN (\<open>None\<close>) for an empty selection.
\<close>

definition median :: "int list \<Rightarrow> rat option" where
  "median xs =
     (let n = length xs; s = sort xs
      in if n = 0 then None
         else if odd n then Some (of_int (s ! (n div 2)))
         else Some ((of_int (s ! (n div 2 - 1)) + of_int (s ! (n div 2))) / 2))"

text \<open>\<^verbatim>\<open>Series.mean()\<close>, NaN for an empty selection.\<close>

definition mean :: "int list \<Rightarrow> rat option" where
  "mean xs = (if xs = [] then None else Some (of_int (sum_list xs) / of_int (int (length xs))))"

text \<open>Lines 138-139. A NaN median makes the gap NaN.\<close>

definition Last_Year_median_price :: "sale list \<Rightarrow> rat option" where
  "Last_Year_median_price sales_processed =
     median (map SaleAmount (filter (\<lambda>s. Year s \<ge> 2024) sales_processed))"

definition affordability_gap :: "sale list \<Rightarrow> rat option" where
  "affordability_gap sales_processed =
     map_option (\<lambda>m. m - of_int affordable_home_price) (Last_Year_median_price sales_processed)"

text \<open>Lines 162-165: the share of sales since 2020 at or below the affordable price.\<close>

definition homes_affordable :: "sale list \<Rightarrow> nat" where
  "homes_affordable sales_processed =
     length (filter (\<lambda>s. Year s \<ge> 2020 \<and> SaleAmount s \<le> affordable_home_price) sales_processed)"

definition total_recent_sales :: "sale list \<Rightarrow> nat" where
  "total_recent_sales sales_processed = length (filter (\<lambda>s. Year s \<ge> 2020) sales_processed)"

definition affordable_pct :: "sale list \<Rightarrow> py_error + rat" where
  "affordable_pct sales_processed =
     (if total_recent_sales sales_processed > 0
      then (case py_truediv (int (homes_affordable sales_processed))
                            (int (total_recent_sales sales_processed)) of
              Inl e \<Rightarrow> Inl e
            | Inr q \<Rightarrow> Inr (q * 100))
      else Inr 0)"

section \<open>Time-Series Aggregator: \<^verbatim>\<open>yearly_stats\<close>\<close>

text \<open>
  \<^verbatim>\<open>groupby('Year')\<close> forms one group per distinct value of the key column, the groups in
  ascending key order (the default \<^verbatim>\<open>sort=True\<close>), each holding its rows in table order.
\<close>

definition groupby_Year :: "sale list \<Rightarrow> (int \<times> sale list) list" where
  "groupby_Year sales =
     map (\<lambda>y. (y, filter (\<lambda>s. Year s = y) sales)) (sort (remdups (map Year sales)))"

record yearly_stat =
  stat_Year :: int
  MedianPrice :: "rat option"
  AveragePrice :: "rat option"
  Sales :: nat

text \<open>\<^verbatim>\<open>.agg(['median', 'mean', 'count'])\<close> on the \<^verbatim>\<open>SaleAmount\<close> column of one group.\<close>

definition agg_SaleAmount :: "int \<times> sale list \<Rightarrow> yearly_stat" where
  "agg_SaleAmount g =
     \<lparr>stat_Year = fst g,
      MedianPrice = median (map SaleAmount (snd g)),
      AveragePrice = mean (map SaleAmount (snd g)),
      Sales = length (snd g)\<rparr>"

text \<open>Lines 192-194.\<close>

definition yearly_stats :: "sale list \<Rightarrow> yearly_stat list" where
  "yearly_stats sales_processed =
     filter (\<lambda>r. stat_Year r \<ge> 2000) (map agg_SaleAmount (groupby_Year sales_processed))"

section \<open>Affordability Calculator: the income table\<close>

text \<open>
  Lines 218-224: the dictionary \<^verbatim>\<open>income_by_year\<close>, as the association list of its items.
  The value stored under 2024 is Python's \<^verbatim>\<open>None\<close>.
\<close>

definition income_by_year :: "(int \<times> int option) list" where
  "income_by_year =
     [(2000, Some 32903), (2001, Some 33223), (2002, Some 32785), (2003, Some 31363),
      (2004, Some 31246), (2005, Some 33041), (2006, Some 35147), (2007, Some 37195),
      (2008, Some 42948), (2009, Some 39030), (2010, Some 42240), (2011, Some 43980),
      (2012, Some 44535), (2013, Some 44601), (2014, Some 47218), (2015, Some 49775),
      (2016, Some 50727), (2017, Some 54739), (2018, Some 58933), (2019, Some 59471),
      (2020, Some 59598), (2021, Some 63470), (2022, Some 67177), (2023, Some 69829),
      (2024, None)]"

text \<open>
  \<^verbatim>\<open>Series.map(income_by_year)\<close>: a key that is not in the dictionary, and a key whose
  value is \<^verbatim>\<open>None\<close>, both give NaN.
\<close>

definition map_income :: "int \<Rightarrow> int option" where
  "map_income y = (case map_of income_by_year y of None \<Rightarrow> None | Some v \<Rightarrow> v)"

record affordability_stat = yearly_stat +
  MedianIncome :: "int option"
  AffordablePrice :: "int option"

text \<open>
  Lines 226-227. (The merge of the 75th-percentile column in lines 213-215 adds a column
  to \<^verbatim>\<open>yearly_stats\<close> and leaves its rows, their order and the other columns unchanged;
  that column is not part of the model.)
\<close>

definition with_affordable_price :: "yearly_stat \<Rightarrow> affordability_stat" where
  "with_affordable_price r =
     yearly_stat.extend r
       (affordability_stat.fields (map_income (stat_Year r))
          (map_option (\<lambda>i. i * 3) (map_income (stat_Year r))))"

definition affordability_stats :: "sale list \<Rightarrow> affordability_stat list" where
  "affordability_stats sales_processed = map with_affordable_price (yearly_stats sales_processed)"

section \<open>Strings\<close>

text \<open>
  Strings are modelled as ASCII text. \<^verbatim>\<open>str.upper\<close> and \<^verbatim>\<open>str.lower\<close> map the 26 letters
  and leave every other character alone; \<^verbatim>\<open>str.strip\<close> removes leading and trailing
  whitespace, which in ASCII is the characters 9-13, 28-31 and the space.
\<close>

definition py_upper_char :: "char \<Rightarrow> char" where
  "py_upper_char c =
     (let n = (of_char c :: nat) in if 97 \<le> n \<and> n \<le> 122 then char_of (n - 32) else c)"

definition py_lower_char :: "char \<Rightarrow> char" where
  "py_lower_char c =
     (let n = (of_char c :: nat) in if 65 \<le> n \<and> n \<le> 90 then char_of (n + 32) else c)"

definition py_upper :: "string \<Rightarrow> string" where
  "py_upper s = map py_upper_char s"

definition py_lower :: "string \<Rightarrow> string" where
  "py_lower s = map py_lower_char s"

definition py_isspace :: "char \<Rightarrow> bool" where
  "py_isspace c = (let n = (of_char c :: nat) in (9 \<le> n \<and> n \<le> 13) \<or> (28 \<le> n \<and> n \<le> 32))"

definition py_strip :: "string \<Rightarrow> string" where
  "py_strip s = rev (dropWhile py_isspace (rev (dropWhile py_isspace s)))"

text \<open>\<^verbatim>\<open>.astype(str)\<close> on a cell: a missing cell becomes the text \<^verbatim>\<open>nan\<close>.\<close>

definition astype_str :: "string option \<Rightarrow> string" where
  "astype_str v = (case v of None \<Rightarrow> ''nan'' | Some s \<Rightarrow> s)"

section \<open>Regular expressions: the pattern syntax of \<^verbatim>\<open>re\<close>\<close>

text \<open>
  \<^verbatim>\<open>Series.str.contains(pat, case=False, na=False)\<close> leaves \<^verbatim>\<open>regex\<close> at its default
  \<^verbatim>\<open>True\<close>: the pattern is compiled with \<^verbatim>\<open>re.compile(pat, re.IGNORECASE)\<close> and a cell
  matches when \<^verbatim>\<open>search\<close> finds a match anywhere in it. The model covers literals, the
  dot, escaped punctuation, groups, alternation and the greedy repeats
  \<^verbatim>\<open>*\<close>, \<^verbatim>\<open>+\<close>, \<^verbatim>\<open>?\<close>; character sets, counted repeats, anchors, lazy and possessive
  repeats, group extensions and escapes of letters and digits are \<open>NotModelled\<close>.
\<close>

datatype rx =
    Never
  | Empty
  | Literal char
  | Any
  | Seq rx rx
  | Branch rx rx
  | Star rx
  | Plus rx
  | Opt rx
  | Subpattern rx

definition mk_seq :: "rx list \<Rightarrow> rx" where
  "mk_seq items = foldr Seq items Empty"

fun branch_of :: "rx list \<Rightarrow> rx" where
  "branch_of [] = Never"
| "branch_of [r] = r"
| "branch_of (r # rs) = Branch r (branch_of rs)"

text \<open>A finished (sub)pattern: its alternatives, the last one being the current sequence.\<close>

definition close_pattern :: "rx list \<Rightarrow> rx list \<Rightarrow> rx" where
  "close_pattern alts items = branch_of (alts @ [mk_seq items])"

fun is_repeat :: "rx \<Rightarrow> bool" where
  "is_repeat (Star r) = True"
| "is_repeat (Plus r) = True"
| "is_repeat (Opt r) = True"
| "is_repeat r = False"

definition repeat_of :: "char \<Rightarrow> rx \<Rightarrow> rx" where
  "repeat_of c r = (if c = CHR ''*'' then Star r else if c = CHR ''+'' then Plus r else Opt r)"

definition is_ascii_alnum :: "char \<Rightarrow> bool" where
  "is_ascii_alnum c =
     (let n = (of_char c :: nat)
      in (48 \<le> n \<and> n \<le> 57) \<or> (65 \<le> n \<and> n \<le> 90) \<or> (97 \<le> n \<and> n \<le> 122))"

text \<open>
  The special characters of the pattern syntax; every other character stands for itself.
\<close>

definition re_special :: "char \<Rightarrow> bool" where
  "re_special c = (c \<in> set ''.^$*+?{}[]|()'' \<or> c = CHR 0x5C)"

text \<open>
  The tokens of a pattern, as the tokenizer of \<^verbatim>\<open>sre_parse\<close> hands them out: a character,
  or a backslash together with the character after it. A backslash that ends the pattern
  is the token \<open>Dangling\<close>, at which the tokenizer raises (bad escape).
\<close>

datatype token = Plain char | Escaped char | Dangling

fun tokenize :: "string \<Rightarrow> token list" where
  "tokenize [] = []"
| "tokenize [c] = (if c = CHR 0x5C then [Dangling] else [Plain c])"
| "tokenize (c # e # cs) =
     (if c = CHR 0x5C then Escaped e # tokenize cs else Plain c # tokenize (e # cs))"

text \<open>
  The parser reads the tokens left to right. \<open>alts\<close> are the finished alternatives and
  \<open>items\<close> the items of the current sequence, both of the innermost open group;
  \<open>stack\<close> holds the same pair for each enclosing group. \<open>sre_step\<close> handles one
  token, \<open>next\<close> being the tokens after it. The errors are those of \<^verbatim>\<open>re\<close>: a bad
  escape, a repeat with nothing before it (nothing to repeat), a repeat after a repeat
  (multiple repeat), a closing parenthesis with no group open (unbalanced parenthesis) and
  the end of the pattern inside a group (missing closing parenthesis).
\<close>

type_synonym parse_state = "rx list \<times> rx list \<times> (rx list \<times> rx list) list"

definition sre_step :: "token \<Rightarrow> token list \<Rightarrow> parse_state \<Rightarrow> py_error + parse_state" where
  "sre_step t next st =
     (case st of (alts, items, stack) \<Rightarrow>
        (case t of
           Dangling \<Rightarrow> Inl ReError
         | Escaped e \<Rightarrow>
             if is_ascii_alnum e then Inl NotModelled
             else Inr (alts, items @ [Literal e], stack)
         | Plain c \<Rightarrow>
             if c = CHR ''['' \<or> c = CHR ''{'' \<or> c = CHR ''^'' \<or> c = CHR ''$'' then Inl NotModelled
             else if c = CHR ''*'' \<or> c = CHR ''+'' \<or> c = CHR ''?'' then
               (if items = [] then Inl ReError
                else if is_repeat (last items) then Inl ReError
                else if take 1 next = [Plain CHR ''?''] \<or> take 1 next = [Plain CHR ''+'']
                  then Inl NotModelled
                else Inr (alts, butlast items @ [repeat_of c (last items)], stack))
             else if c = CHR ''.'' then Inr (alts, items @ [Any], stack)
             else if c = CHR ''('' then
               (if take 1 next = [Plain CHR ''?''] then Inl NotModelled
                else Inr ([], [], (alts, items) # stack))
             else if c = CHR '')'' then
               (case stack of
                  [] \<Rightarrow> Inl ReError
                | (alts', items') # stack' \<Rightarrow>
                    Inr (alts', items' @ [Subpattern (close_pattern alts items)], stack'))
             else if c = CHR ''|'' then Inr (alts @ [mk_seq items], [], stack)
             else Inr (alts, items @ [Literal c], stack)))"

fun sre_parse :: "token list \<Rightarrow> parse_state \<Rightarrow> py_error + rx" where
  "sre_parse [] st =
     (case st of (alts, items, stack) \<Rightarrow>
        if stack = [] then Inr (close_pattern alts items) else Inl ReError)"
| "sre_parse (t # ts) st =
     (case sre_step t ts st of
        Inl e \<Rightarrow> Inl e
      | Inr st' \<Rightarrow> sre_parse ts st')"

definition re_compile :: "string \<Rightarrow> py_error + rx" where
  "re_compile pat = sre_parse (tokenize pat) ([], [], [])"

text \<open>
  Matching under \<^verbatim>\<open>re.IGNORECASE\<close>, by derivatives: \<open>deriv c r\<close> matches what \<open>r\<close>
  matches after the character \<open>c\<close>. A literal matches a character of the same letter in
  either case; the dot matches every character but the newline.
\<close>

fun nullable :: "rx \<Rightarrow> bool" where
  "nullable Never = False"
| "nullable Empty = True"
| "nullable (Literal c) = False"
| "nullable Any = False"
| "nullable (Seq r s) = (nullable r \<and> nullable s)"
| "nullable (Branch r s) = (nullable r \<or> nullable s)"
| "nullable (Star r) = True"
| "nullable (Plus r) = nullable r"
| "nullable (Opt r) = True"
| "nullable (Subpattern r) = nullable r"

fun deriv :: "char \<Rightarrow> rx \<Rightarrow> rx" where
  "deriv c Never = Never"
| "deriv c Empty = Never"
| "deriv c (Literal l) = (if py_lower_char c = py_lower_char l then Empty else Never)"
| "deriv c Any = (if c = CHR 0x0A then Never else Empty)"
| "deriv c (Seq r s) =
     (if nullable r then Branch (Seq (deriv c r) s) (deriv c s) else Seq (deriv c r) s)"
| "deriv c (Branch r s) = Branch (deriv c r) (deriv c s)"
| "deriv c (Star r) = Seq (deriv c r) (Star r)"
| "deriv c (Plus r) = Seq (deriv c r) (Star r)"
| "deriv c (Opt r) = deriv c r"
| "deriv c (Subpattern r) = deriv c r"

text \<open>\<^verbatim>\<open>pattern.match\<close>: some prefix of the text matches.\<close>

fun match_here :: "rx \<Rightarrow> string \<Rightarrow> bool" where
  "match_here r [] = nullable r"
| "match_here r (c # cs) = (nullable r \<or> match_here (deriv c r) cs)"

text \<open>\<^verbatim>\<open>pattern.search(text) is not None\<close>: a match starts at some position of the text.\<close>

fun re_search :: "rx \<Rightarrow> string \<Rightarrow> bool" where
  "re_search r [] = nullable r"
| "re_search r (c # cs) = (match_here r (c # cs) \<or> re_search r cs)"

text \<open>
  What a pattern matches under \<^verbatim>\<open>re.IGNORECASE\<close>, as a relation between the pattern and
  the matched text. The two functions above decide it (lemmas \<open>match_here_matches\<close>
  and \<open>re_search_matches\<close> below).
\<close>

inductive matches :: "rx \<Rightarrow> string \<Rightarrow> bool" where
  m_Empty: "matches Empty []"
| m_Literal: "py_lower_char c = py_lower_char l \<Longrightarrow> matches (Literal l) [c]"
| m_Any: "c \<noteq> CHR 0x0A \<Longrightarrow> matches Any [c]"
| m_Seq: "matches r s \<Longrightarrow> matches r' s' \<Longrightarrow> matches (Seq r r') (s @ s')"
| m_BranchL: "matches r s \<Longrightarrow> matches (Branch r r') s"
| m_BranchR: "matches r' s \<Longrightarrow> matches (Branch r r') s"
| m_StarNil: "matches (Star r) []"
| m_StarStep: "matches r s \<Longrightarrow> matches (Star r) s' \<Longrightarrow> matches (Star r) (s @ s')"
| m_Plus: "matches r s \<Longrightarrow> matches (Star r) s' \<Longrightarrow> matches (Plus r) (s @ s')"
| m_OptNil: "matches (Opt r) []"
| m_Opt: "matches r s \<Longrightarrow> matches (Opt r) s"
| m_Subpattern: "matches r s \<Longrightarrow> matches (Subpattern r) s"

text \<open>
  \<^verbatim>\<open>Series.str.contains(pat, case=False, na=False)\<close> on a column: the pattern is compiled
  once, before any cell is looked at; a missing cell gives \<^verbatim>\<open>False\<close>.
\<close>

definition str_contains :: "string \<Rightarrow> string option list \<Rightarrow> py_error + bool list" where
  "str_contains pat col =
     (case re_compile pat of
        Inl e \<Rightarrow> Inl e
      | Inr r \<Rightarrow> Inr (map (\<lambda>cell. case cell of None \<Rightarrow> False | Some s \<Rightarrow> re_search r s) col))"

section \<open>Property Lookup Index\<close>

text \<open>A row of \<^verbatim>\<open>Real_Estate_All_Assessments.csv\<close>, and the row with the derived address.\<close>

record assessment =
  ParcelNumber :: string
  TaxYear :: int
  TotalValue :: int
  StreetNumber :: "string option"
  StreetName :: "string option"

record assessment_row = assessment +
  FullAddress :: string

text \<open>Line 717.\<close>

definition add_FullAddress :: "assessment \<Rightarrow> assessment_row" where
  "add_FullAddress r =
     assessment.extend r
       (assessment_row.fields (astype_str (StreetNumber r) @ '' '' @ astype_str (StreetName r)))"

text \<open>Lines 719-722: the rows whose full address or street name contains the query.\<close>

definition matching_properties :: "string \<Rightarrow> assessment_row list \<Rightarrow> py_error + assessment_row list" where
  "matching_properties search_address all_assessments =
     (case str_contains (py_upper search_address) (map (\<lambda>r. Some (FullAddress r)) all_assessments) of
        Inl e \<Rightarrow> Inl e
      | Inr in_address \<Rightarrow>
          (case str_contains (py_upper search_address) (map StreetName all_assessments) of
             Inl e \<Rightarrow> Inl e
           | Inr in_street \<Rightarrow>
               Inr (map fst (filter (\<lambda>(r, a, s). a \<or> s)
                      (zip all_assessments (zip in_address in_street))))))"

text \<open>\<^verbatim>\<open>drop_duplicates()\<close> keeps the first occurrence of every row, in table order.\<close>

fun drop_duplicates_from :: "'a list \<Rightarrow> 'a list \<Rightarrow> 'a list" where
  "drop_duplicates_from seen [] = []"
| "drop_duplicates_from seen (x # xs) =
     (if x \<in> set seen then drop_duplicates_from seen xs
      else x # drop_duplicates_from (x # seen) xs)"

definition drop_duplicates :: "'a list \<Rightarrow> 'a list" where
  "drop_duplicates xs = drop_duplicates_from [] xs"

text \<open>Line 725: the distinct (parcel, address) pairs of the matching rows.\<close>

definition unique_addresses :: "assessment_row list \<Rightarrow> (string \<times> string) list" where
  "unique_addresses matching = drop_duplicates (map (\<lambda>r. (ParcelNumber r, FullAddress r)) matching)"

record property_view =
  selected_address :: string
  selected_parcel :: string
  property_history :: "assessment_row list"

text \<open>
  Lines 727-735. \<open>selectbox\<close> is the user-interface widget \<^verbatim>\<open>st.selectbox\<close>: given the
  options it returns the one the user picked. With several pairs the parcel is that of
  the first pair carrying the picked address.
\<close>

definition select_property ::
  "(string list \<Rightarrow> string) \<Rightarrow> (string \<times> string) list \<Rightarrow> py_error + (string \<times> string)" where
  "select_property selectbox unique =
     (if length unique > 1 then
        (let picked = selectbox (map snd unique) in
         case iloc0 (map fst (filter (\<lambda>(p, a). a = picked) unique)) of
           Inl e \<Rightarrow> Inl e
         | Inr parcel \<Rightarrow> Inr (picked, parcel))
      else
        (case iloc0 (map snd unique) of
           Inl e \<Rightarrow> Inl e
         | Inr address \<Rightarrow>
             (case iloc0 (map fst unique) of
                Inl e \<Rightarrow> Inl e
              | Inr parcel \<Rightarrow> Inr (address, parcel))))"

text \<open>
  The widget as line 728 calls it, \<^verbatim>\<open>st.selectbox(label, options=...)\<close>, with \<^verbatim>\<open>index\<close>
  left at its default 0. \<open>picked\<close> is what the user has done with it: \<open>None\<close> while
  the widget is untouched, \<open>Some i\<close> once the user has picked the option at position
  \<open>i\<close>. Untouched, the widget returns the first option at once; it never waits. A
  position outside the list falls back to the first option. Line 727 calls the widget
  with two options or more; for an empty list it returns \<^verbatim>\<open>None\<close>, written as the empty
  text here.
\<close>

definition st_selectbox :: "nat option \<Rightarrow> string list \<Rightarrow> string" where
  "st_selectbox picked options =
     (case options of
        [] \<Rightarrow> []
      | first # _ \<Rightarrow>
          (case picked of
             None \<Rightarrow> first
           | Some i \<Rightarrow> if i < length options then options ! i else first))"

text \<open>
  Lines 715-737, the whole search: nothing is looked up for an empty query, and nothing
  is selected when no row matches. \<open>sort_values\<close> is the library call
  \<^verbatim>\<open>DataFrame.sort_values('TaxYear')\<close>.
\<close>

definition property_search ::
  "(string list \<Rightarrow> string) \<Rightarrow> (assessment_row list \<Rightarrow> assessment_row list) \<Rightarrow>
   string \<Rightarrow> assessment list \<Rightarrow> py_error + property_view option" where
  "property_search selectbox sort_values search_address assessments =
     (if search_address = [] then Inr None
      else
        (let all_assessments = map add_FullAddress assessments in
         case matching_properties search_address all_assessments of
           Inl e \<Rightarrow> Inl e
         | Inr matching \<Rightarrow>
             if length matching > 0 then
               (case select_property selectbox (unique_addresses matching) of
                  Inl e \<Rightarrow> Inl e
                | Inr (address, parcel) \<Rightarrow>
                    Inr (Some \<lparr>selected_address = address, selected_parcel = parcel,
                      property_history =
                        sort_values (filter (\<lambda>r. ParcelNumber r = parcel) all_assessments)\<rparr>))
             else Inr None))"

text \<open>
  The contract of \<^verbatim>\<open>sort_values('TaxYear')\<close>: the same rows, in ascending order of the
  key. The default sorting algorithm fixes no order among rows with equal keys.
\<close>

definition sorts_by_TaxYear :: "(assessment_row list \<Rightarrow> assessment_row list) \<Rightarrow> bool" where
  "sorts_by_TaxYear sort_values =
     (\<forall>rows. mset (sort_values rows) = mset rows \<and> sorted (map TaxYear (sort_values rows)))"

text \<open>
  Lines 739 and 761-765: the change of the assessed value since 2021. The values are
  numpy scalars, whose division by zero gives a non-finite number (\<open>None\<close> here) and
  raises nothing.
\<close>

definition np_truediv :: "int \<Rightarrow> int \<Rightarrow> rat option" where
  "np_truediv a b = (if b = 0 then None else Some (of_int a / of_int b))"

record change_metric =
  current_value :: int
  total_change :: int
  pct_change :: "rat option"

definition change_since_2021 :: "assessment_row list \<Rightarrow> py_error + change_metric option" where
  "change_since_2021 history =
     (if length history > 0 then
        (let latest_assessment = last history;
             assessment_2021 = filter (\<lambda>r. TaxYear r = 2021) history
         in case iloc0 assessment_2021 of
              Inl e \<Rightarrow> Inl e
            | Inr base \<Rightarrow>
                Inr (Some \<lparr>current_value = TotalValue latest_assessment,
                  total_change = TotalValue latest_assessment - TotalValue base,
                  pct_change =
                    map_option (\<lambda>q. q * 100)
                      (np_truediv (TotalValue latest_assessment - TotalValue base)
                         (TotalValue base))\<rparr>))
      else Inr None)"

section \<open>Ownership Aggregator\<close>

text \<open>A row of \<^verbatim>\<open>Parcel_Boundary_Area_Details.csv\<close>; every cell may be missing.\<close>

record parcel =
  OwnerName :: "string option"
  OwnerCityState :: "string option"
  LotSquareFeet :: "int option"
  Assessment :: "int option"

record parcel_detail = parcel +
  OwnerCityState_Clean :: string
  IsLocal :: bool

text \<open>Lines 787-788, on one row.\<close>

definition clean_parcel :: "parcel \<Rightarrow> parcel_detail" where
  "clean_parcel p =
     (let clean = py_upper (py_strip (astype_str (OwnerCityState p)))
      in parcel.extend p (parcel_detail.fields clean (clean = ''CHARLOTTESVILLE VA'')))"

text \<open>Lines 785-788: rows without an owner city/state are dropped first.\<close>

definition parcel_details :: "parcel list \<Rightarrow> parcel_detail list" where
  "parcel_details parcels = map clean_parcel (filter (\<lambda>p. OwnerCityState p \<noteq> None) parcels)"

text \<open>\<^verbatim>\<open>Series.sum()\<close> skips missing cells.\<close>

definition nansum :: "int option list \<Rightarrow> int" where
  "nansum cells = sum_list (map (\<lambda>v. case v of None \<Rightarrow> 0 | Some x \<Rightarrow> x) cells)"

text \<open>Lines 791-799, each as a function of the cleaned table.\<close>

definition total_parcels :: "parcel_detail list \<Rightarrow> nat" where
  "total_parcels details = length details"

definition local_parcels :: "parcel_detail list \<Rightarrow> nat" where
  "local_parcels details = length (filter IsLocal details)"

definition non_local_parcels :: "parcel_detail list \<Rightarrow> nat" where
  "non_local_parcels details = total_parcels details - local_parcels details"

definition total_land_area :: "parcel_detail list \<Rightarrow> int" where
  "total_land_area details = nansum (map LotSquareFeet details)"

definition local_land_area :: "parcel_detail list \<Rightarrow> int" where
  "local_land_area details = nansum (map LotSquareFeet (filter IsLocal details))"

definition non_local_land_area :: "parcel_detail list \<Rightarrow> int" where
  "non_local_land_area details = nansum (map LotSquareFeet (filter (\<lambda>p. \<not> IsLocal p) details))"

text \<open>
  \<^verbatim>\<open>groupby('OwnerName')\<close>: one group per owner name, in ascending order of the names;
  rows with a missing name belong to no group.
\<close>

definition owner_names :: "parcel_detail list \<Rightarrow> string list" where
  "owner_names details =
     concat (map (\<lambda>p. case OwnerName p of None \<Rightarrow> [] | Some name \<Rightarrow> [name]) details)"

definition groupby_OwnerName :: "parcel_detail list \<Rightarrow> (string \<times> parcel_detail list) list" where
  "groupby_OwnerName details =
     map (\<lambda>name. (name, filter (\<lambda>p. OwnerName p = Some name) details))
       (sort (remdups (owner_names details)))"

record owner_total =
  Owner :: string
  TotalProperties :: nat
  TotalSquareFeet :: int
  TotalAssessment :: int

text \<open>
  Lines 818-837: the totals of one group. \<open>has_Assessment\<close> says whether the table has
  an \<^verbatim>\<open>Assessment\<close> column; without it the total is set to 0.
\<close>

definition agg_owner :: "bool \<Rightarrow> string \<times> parcel_detail list \<Rightarrow> owner_total" where
  "agg_owner has_Assessment g =
     \<lparr>Owner = fst g,
      TotalProperties = length (snd g),
      TotalSquareFeet = nansum (map LotSquareFeet (snd g)),
      TotalAssessment = (if has_Assessment then nansum (map Assessment (snd g)) else 0)\<rparr>"

text \<open>
  Lines 818-840. \<open>sort_values\<close> is the library call
  \<^verbatim>\<open>sort_values(by='TotalProperties', ascending=False)\<close>.
\<close>

definition top_owners ::
  "(owner_total list \<Rightarrow> owner_total list) \<Rightarrow> bool \<Rightarrow> parcel_detail list \<Rightarrow> owner_total list" where
  "top_owners sort_values has_Assessment details =
     sort_values (map (agg_owner has_Assessment) (groupby_OwnerName details))"

text \<open>
  The contract of that call: the same rows, the larger property counts first. The default
  algorithm (\<^verbatim>\<open>kind='quicksort'\<close>) fixes no order among rows with equal counts.
\<close>

definition sorts_by_TotalProperties_desc :: "(owner_total list \<Rightarrow> owner_total list) \<Rightarrow> bool" where
  "sorts_by_TotalProperties_desc sort_values =
     (\<forall>rows. mset (sort_values rows) = mset rows
        \<and> sorted_wrt (\<lambda>a b. TotalProperties a \<ge> TotalProperties b) (sort_values rows))"

text \<open>
  Two sorts that meet the contracts, the stable ones (\<^verbatim>\<open>kind='stable'\<close>): rows with equal
  keys keep their order.
\<close>

definition stable_sort_TotalProperties_desc :: "owner_total list \<Rightarrow> owner_total list" where
  "stable_sort_TotalProperties_desc rows = sort_key (\<lambda>r. - int (TotalProperties r)) rows"

definition stable_sort_TaxYear :: "assessment_row list \<Rightarrow> assessment_row list" where
  "stable_sort_TaxYear rows = sort_key TaxYear rows"

section \<open>Address matching, as specified\<close>

text \<open>
  The matching rule in the words of the specification: the query, compared without
  regard to case, is a substring of the text; a record matches when the query is a
  substring of its full address or of its street name.
\<close>

definition contains_ignorecase :: "string \<Rightarrow> string \<Rightarrow> bool" where
  "contains_ignorecase query text = sublist (py_lower query) (py_lower text)"

definition matches_query :: "string \<Rightarrow> assessment_row \<Rightarrow> bool" where
  "matches_query query r =
     (contains_ignorecase query (FullAddress r)
      \<or> (case StreetName r of None \<Rightarrow> False | Some name \<Rightarrow> contains_ignorecase query name))"

section \<open>Ownership classification, as specified\<close>

text \<open>
  The classification in the words of the specification: a parcel counts as local when its
  owner city/state is present and, trimmed and upper-cased, is the canonical token; as
  non-local when it is present and is not. A parcel without the field is neither.
\<close>

definition is_local_owner :: "parcel \<Rightarrow> bool" where
  "is_local_owner p =
     (case OwnerCityState p of
        None \<Rightarrow> False
      | Some s \<Rightarrow> py_upper (py_strip s) = ''CHARLOTTESVILLE VA'')"

definition is_non_local_owner :: "parcel \<Rightarrow> bool" where
  "is_non_local_owner p =
     (case OwnerCityState p of
        None \<Rightarrow> False
      | Some s \<Rightarrow> py_upper (py_strip s) \<noteq> ''CHARLOTTESVILLE VA'')"

section \<open>Example tables\<close>



text \<open>Normalised sales: one in 2023, one in 1999 and one in 2024.\<close>

definition sale_in :: "int \<Rightarrow> int \<Rightarrow> sale" where
  "sale_in y amount =
     \<lparr>SaleParcelNumber = ''010001000'',
      SaleDate = \<lparr>dt_year = y, dt_month = 6, dt_day = 1, dt_hour = 0, dt_minute = 0, dt_second = 0\<rparr>,
      SaleAmount = amount, Year = y, Month = 6\<rparr>"

definition example_sales :: "sale list" where
  "example_sales = [sale_in 2023 300000, sale_in 1999 90000, sale_in 2024 500000]"

text \<open>The assessment history of a parcel first assessed in 2022.\<close>

definition example_history_2022 :: "assessment_row list" where
  "example_history_2022 =
     [add_FullAddress \<lparr>ParcelNumber = ''330021000'', TaxYear = 2022, TotalValue = 410000,
        StreetNumber = Some ''123'', StreetName = Some ''MAIN ST''\<rparr>,
      add_FullAddress \<lparr>ParcelNumber = ''330021000'', TaxYear = 2023, TotalValue = 455000,
        StreetNumber = Some ''123'', StreetName = Some ''MAIN ST''\<rparr>]"

text \<open>
  Parcels: a local owner written in mixed case with a trailing space, an owner without a
  city/state, and an owner elsewhere.
\<close>

definition parcel_of :: "string \<Rightarrow> string option \<Rightarrow> int \<Rightarrow> parcel" where
  "parcel_of name city_state sqft =
     \<lparr>OwnerName = Some name, OwnerCityState = city_state, LotSquareFeet = Some sqft,
      Assessment = None\<rparr>"

definition example_parcels :: "parcel list" where
  "example_parcels =
     [parcel_of ''SMITH JOHN'' (Some ''charlottesville Va '') 8000,
      parcel_of ''ACME HOLDINGS LLC'' None 50000,
      parcel_of ''JONES MARY'' (Some ''RICHMOND VA'') 6000]"

text \<open>
  Parcels of three owners; the two owners with two parcels each are first met in the
  order SMITH, JONES.
\<close>

definition example_owner_parcels :: "parcel list" where
  "example_owner_parcels =
     [parcel_of ''SMITH JOHN'' (Some ''CHARLOTTESVILLE VA'') 8000,
      parcel_of ''JONES MARY'' (Some ''RICHMOND VA'') 6000,
      parcel_of ''ZETA LLC'' (Some ''NEW YORK NY'') 90000,
      parcel_of ''SMITH JOHN'' (Some ''CHARLOTTESVILLE VA'') 7000,
      parcel_of ''JONES MARY'' (Some ''RICHMOND VA'') 5000]"

text \<open>
  Three properties, one assessment each, and a table in which the first of them has a
  history of three years, out of order.
\<close>

definition example_addresses :: "assessment_row list" where
  "example_addresses =
     map add_FullAddress
       [\<lparr>ParcelNumber = ''330021000'', TaxYear = 2022, TotalValue = 410000,
          StreetNumber = Some ''123'', StreetName = Some ''MAIN ST''\<rparr>,
        \<lparr>ParcelNumber = ''330022000'', TaxYear = 2022, TotalValue = 290000,
          StreetNumber = Some ''45'', StreetName = Some ''MAIN ST''\<rparr>,
        \<lparr>ParcelNumber = ''410007000'', TaxYear = 2022, TotalValue = 510000,
          StreetNumber = Some ''7'', StreetName = Some ''OAK AVE''\<rparr>]"

definition example_assessments :: "assessment list" where
  "example_assessments =
     [\<lparr>ParcelNumber = ''330021000'', TaxYear = 2023, TotalValue = 455000,
        StreetNumber = Some ''123'', StreetName = Some ''MAIN ST''\<rparr>,
      \<lparr>ParcelNumber = ''330021000'', TaxYear = 2021, TotalValue = 380000,
        StreetNumber = Some ''123'', StreetName = Some ''MAIN ST''\<rparr>,
      \<lparr>ParcelNumber = ''330022000'', TaxYear = 2022, TotalValue = 290000,
        StreetNumber = Some ''45'', StreetName = Some ''MAIN ST''\<rparr>,
      \<lparr>ParcelNumber = ''410007000'', TaxYear = 2022, TotalValue = 510000,
        StreetNumber = Some ''7'', StreetName = Some ''OAK AVE''\<rparr>,
      \<lparr>ParcelNumber = ''330021000'', TaxYear = 2022, TotalValue = 410000,
        StreetNumber = Some ''123'', StreetName = Some ''MAIN ST''\<rparr>]"

definition example_rows :: "assessment_row list" where
  "example_rows = map add_FullAddress example_assessments"

section \<open>Theorems\<close>

subsection \<open>Sales Normalizer\<close>




subsection \<open>Affordability percentage\<close>

text \<open>
  Claim C1, as the code has it. When no sale falls in the year range, the guard of line 165
  makes the percentage the number 0: nothing is raised, and the result is not an undefined
  value. For every table the computation returns a number.
\<close>

theorem affordable_pct_zero_total:
  "(total_recent_sales sales = 0 \<longrightarrow> affordable_pct sales = Inr 0)
   \<and> (\<exists>q. affordable_pct sales = Inr q)"
  by (simp add: affordable_pct_def py_truediv_def)

theorem affordable_pct_zero_total_witness:
  "total_recent_sales [sale_in 1999 90000] = 0 \<and> affordable_pct [sale_in 1999 90000] = Inr 0"
proof -
  have z: "total_recent_sales [sale_in 1999 90000] = 0"
    by (simp add: total_recent_sales_def sale_in_def)
  with affordable_pct_zero_total [of "[sale_in 1999 90000]"] show ?thesis by blast
qed

text \<open>
  Claim C1, as stated, fails on the empty table: the year range holds no sale and the
  result is the number 0.
\<close>

theorem affordable_pct_empty_is_zero:
  "total_recent_sales [] = 0 \<and> affordable_pct [] = Inr 0"
  by (simp add: affordable_pct_def total_recent_sales_def)

subsection \<open>Time-Series Aggregator\<close>

lemma stat_Year_agg: "stat_Year (agg_SaleAmount g) = fst g"
  by (simp add: agg_SaleAmount_def)

lemma years_yearly_stats:
  "map stat_Year (yearly_stats sales) = filter (\<lambda>y. y \<ge> 2000) (sort (remdups (map Year sales)))"
  by (simp add: yearly_stats_def groupby_Year_def filter_map o_def stat_Year_agg)

lemma yearly_stats_row:
  assumes "r \<in> set (yearly_stats sales)"
  shows "stat_Year r \<in> Year ` set sales"
    and "Sales r = length (filter (\<lambda>s. Year s = stat_Year r) sales)"
    and "MedianPrice r = median (map SaleAmount (filter (\<lambda>s. Year s = stat_Year r) sales))"
    and "AveragePrice r = mean (map SaleAmount (filter (\<lambda>s. Year s = stat_Year r) sales))"
  using assms by (auto simp: yearly_stats_def groupby_Year_def agg_SaleAmount_def)

lemma median_nonempty: "xs \<noteq> [] \<Longrightarrow> median xs \<noteq> None"
  by (cases "odd (length xs)") (simp_all add: median_def Let_def)

lemma mean_nonempty: "xs \<noteq> [] \<Longrightarrow> mean xs \<noteq> None"
  by (simp add: mean_def)

text \<open>
  Claim C8. The rows of \<^verbatim>\<open>yearly_stats\<close> are in ascending order of the year, one row per
  year; the years are exactly those at or above 2000 in which a sale was recorded, so a
  year without records has no row; and every row counts at least one sale and has a
  median and a mean.
\<close>

theorem yearly_stats_years:
  "sorted (map stat_Year (yearly_stats sales))
   \<and> distinct (map stat_Year (yearly_stats sales))
   \<and> set (map stat_Year (yearly_stats sales)) = {y \<in> Year ` set sales. y \<ge> 2000}
   \<and> (\<forall>y. filter (\<lambda>s. Year s = y) sales = [] \<longrightarrow> y \<notin> set (map stat_Year (yearly_stats sales)))
   \<and> (\<forall>r \<in> set (yearly_stats sales).
         Sales r = length (filter (\<lambda>s. Year s = stat_Year r) sales) \<and> Sales r > 0
         \<and> MedianPrice r \<noteq> None \<and> AveragePrice r \<noteq> None)"
proof -
  have s: "sorted (map stat_Year (yearly_stats sales))"
    unfolding years_yearly_stats by (rule sorted_wrt_filter) simp
  have d: "distinct (map stat_Year (yearly_stats sales))"
    unfolding years_yearly_stats by simp
  have e: "set (map stat_Year (yearly_stats sales)) = {y \<in> Year ` set sales. y \<ge> 2000}"
    unfolding years_yearly_stats by auto
  have a: "\<forall>y. filter (\<lambda>s. Year s = y) sales = [] \<longrightarrow> y \<notin> set (map stat_Year (yearly_stats sales))"
    unfolding e by (auto simp: filter_empty_conv)
  have r: "\<forall>r \<in> set (yearly_stats sales).
         Sales r = length (filter (\<lambda>s. Year s = stat_Year r) sales) \<and> Sales r > 0
         \<and> MedianPrice r \<noteq> None \<and> AveragePrice r \<noteq> None"
  proof
    fix r assume in_r: "r \<in> set (yearly_stats sales)"
    from yearly_stats_row(1)[OF in_r] have ne: "filter (\<lambda>s. Year s = stat_Year r) sales \<noteq> []"
      by (auto simp: filter_empty_conv)
    show "Sales r = length (filter (\<lambda>s. Year s = stat_Year r) sales) \<and> Sales r > 0
         \<and> MedianPrice r \<noteq> None \<and> AveragePrice r \<noteq> None"
      using ne yearly_stats_row(2,3,4)[OF in_r] by (simp add: median_nonempty mean_nonempty)
  qed
  from s d e a r show ?thesis by blast
qed

theorem yearly_stats_years_witness:
  "map (\<lambda>r. (stat_Year r, MedianPrice r, Sales r)) (yearly_stats example_sales) =
     [(2023, Some 300000, 1), (2024, Some 500000, 1)]
   \<and> filter (\<lambda>s. Year s = 2022) example_sales = []
   \<and> 2022 \<notin> set (map stat_Year (yearly_stats example_sales))"
proof -
  have rows: "map (\<lambda>r. (stat_Year r, MedianPrice r, Sales r)) (yearly_stats example_sales) =
     [(2023, Some 300000, 1), (2024, Some 500000, 1)]"
    by (simp add: yearly_stats_def groupby_Year_def agg_SaleAmount_def median_def mean_def
      example_sales_def sale_in_def)
  have none: "filter (\<lambda>s. Year s = 2022) example_sales = []"
    by (simp add: example_sales_def sale_in_def)
  from yearly_stats_years [of example_sales] none
  have "2022 \<notin> set (map stat_Year (yearly_stats example_sales))" by blast
  with rows none show ?thesis by blast
qed

subsection \<open>Affordability Calculator\<close>

lemma affordability_stats_row:
  assumes "r \<in> set (affordability_stats sales)"
  shows "MedianIncome r = map_income (stat_Year r)"
    and "AffordablePrice r = map_option (\<lambda>i. i * 3) (map_income (stat_Year r))"
  using assms
  by (auto simp: affordability_stats_def with_affordable_price_def yearly_stat.defs
      affordability_stat.defs)

lemma income_2023: "map_of income_by_year 2023 = Some (Some 69829)"
  by (simp add: income_by_year_def)

lemma income_2024: "map_of income_by_year 2024 = Some None"
  by (simp add: income_by_year_def)

text \<open>
  Claim C9, as the code has it. In the yearly table the affordable price of a year with a
  known income is exactly three times that income, and it is missing, not zero, for 2024,
  whose income is \<^verbatim>\<open>None\<close>. The headline affordable price is three times the 2023 income
  69,829, that is 209,487. The one affordability gap the script computes is the median
  price of the sales of 2024 and later minus that 2023 figure; it is undefined when there
  is no such sale.
\<close>

theorem affordable_price_and_gap:
  "(\<forall>r \<in> set (affordability_stats sales). \<forall>i.
       map_of income_by_year (stat_Year r) = Some (Some i) \<longrightarrow>
         MedianIncome r = Some i \<and> AffordablePrice r = Some (i * 3))
   \<and> (\<forall>r \<in> set (affordability_stats sales).
         stat_Year r = 2024 \<longrightarrow> MedianIncome r = None \<and> AffordablePrice r = None)
   \<and> map_of income_by_year 2023 = Some (Some 69829)
   \<and> map_of income_by_year 2024 = Some None
   \<and> affordable_home_price = 69829 * 3 \<and> affordable_home_price = 209487
   \<and> affordability_gap sales =
       map_option (\<lambda>m. m - 209487) (median (map SaleAmount (filter (\<lambda>s. Year s \<ge> 2024) sales)))"
proof -
  have known: "\<forall>r \<in> set (affordability_stats sales). \<forall>i.
       map_of income_by_year (stat_Year r) = Some (Some i) \<longrightarrow>
         MedianIncome r = Some i \<and> AffordablePrice r = Some (i * 3)"
    by (simp add: affordability_stats_row map_income_def)
  have unmapped: "\<forall>r \<in> set (affordability_stats sales).
         stat_Year r = 2024 \<longrightarrow> MedianIncome r = None \<and> AffordablePrice r = None"
    by (simp add: affordability_stats_row map_income_def income_2024)
  have price: "affordable_home_price = 209487"
    by (simp add: affordable_home_price_def median_income_def)
  have gap: "affordability_gap sales =
       map_option (\<lambda>m. m - 209487) (median (map SaleAmount (filter (\<lambda>s. Year s \<ge> 2024) sales)))"
    by (simp add: affordability_gap_def Last_Year_median_price_def price)
  from known unmapped income_2023 income_2024 price gap show ?thesis by simp
qed

theorem affordable_price_and_gap_witness:
  "map (\<lambda>r. (stat_Year r, MedianIncome r, AffordablePrice r)) (affordability_stats example_sales) =
     [(2023, Some 69829, Some 209487), (2024, None, None)]
   \<and> affordability_gap example_sales = Some (500000 - 209487)"
proof -
  have rows: "map (\<lambda>r. (stat_Year r, MedianIncome r, AffordablePrice r)) (affordability_stats example_sales) =
     [(2023, Some 69829, Some 209487), (2024, None, None)]"
    by (simp add: affordability_stats_def yearly_stats_def groupby_Year_def agg_SaleAmount_def
        with_affordable_price_def map_income_def income_by_year_def median_def mean_def
        example_sales_def sale_in_def yearly_stat.defs affordability_stat.defs)
  have med: "median (map SaleAmount (filter (\<lambda>s. Year s \<ge> 2024) example_sales)) = Some 500000"
    by (simp add: median_def example_sales_def sale_in_def)
  from affordable_price_and_gap [of example_sales] med
  have "affordability_gap example_sales = Some (500000 - 209487)" by simp
  with rows show ?thesis by blast
qed

text \<open>
  Claim C9, as stated, fails: 2023 is a year with a known income, its median price is
  300,000 and its affordable price 209,487, yet the gap is 290,513, computed from the
  median price of 2024.
\<close>

theorem affordability_gap_not_per_year:
  "map (\<lambda>r. (stat_Year r, MedianPrice r, AffordablePrice r)) (affordability_stats example_sales) =
     [(2023, Some 300000, Some 209487), (2024, Some 500000, None)]
   \<and> affordability_gap example_sales = Some 290513
   \<and> (290513 :: rat) \<noteq> 300000 - 209487"
  by (simp add: affordability_stats_def yearly_stats_def groupby_Year_def agg_SaleAmount_def
        with_affordable_price_def map_income_def income_by_year_def median_def mean_def
        example_sales_def sale_in_def yearly_stat.defs affordability_stat.defs
        affordability_gap_def Last_Year_median_price_def affordable_home_price_def median_income_def)

subsection \<open>Change since the baseline year\<close>

text \<open>
  Claim C2, evaluated on the code: for a parcel whose history has records for 2022 and
  2023 only, the selection of the 2021 record is empty and \<^verbatim>\<open>.iloc[0]\<close> on it raises
  IndexError (line 763).
\<close>

theorem change_since_2021_missing_baseline:
  "filter (\<lambda>r. TaxYear r = 2021) example_history_2022 = []
   \<and> change_since_2021 example_history_2022 = Inl IndexError"
  by (simp add: change_since_2021_def example_history_2022_def add_FullAddress_def iloc0_def
      assessment.defs assessment_row.defs)

subsection \<open>Ownership Aggregator\<close>

lemma IsLocal_clean_parcel:
  "IsLocal (clean_parcel p) =
     (py_upper (py_strip (astype_str (OwnerCityState p))) = ''CHARLOTTESVILLE VA'')"
  by (simp add: clean_parcel_def Let_def parcel.defs parcel_detail.defs)

lemma LotSquareFeet_clean_parcel: "LotSquareFeet (clean_parcel p) = LotSquareFeet p"
  by (simp add: clean_parcel_def Let_def parcel.defs parcel_detail.defs)

lemma OwnerName_clean_parcel: "OwnerName (clean_parcel p) = OwnerName p"
  by (simp add: clean_parcel_def Let_def parcel.defs parcel_detail.defs)

lemma filter_IsLocal_details:
  "filter IsLocal (parcel_details parcels) = map clean_parcel (filter is_local_owner parcels)"
  unfolding parcel_details_def
  by (induction parcels)
     (auto simp: IsLocal_clean_parcel is_local_owner_def astype_str_def split: option.splits)

lemma filter_not_IsLocal_details:
  "filter (\<lambda>p. \<not> IsLocal p) (parcel_details parcels) =
     map clean_parcel (filter is_non_local_owner parcels)"
  unfolding parcel_details_def
  by (induction parcels)
     (auto simp: IsLocal_clean_parcel is_non_local_owner_def astype_str_def split: option.splits)

lemma length_filter_split:
  "length (filter (\<lambda>p. OwnerCityState p \<noteq> None) parcels) =
     length (filter is_local_owner parcels) + length (filter is_non_local_owner parcels)"
  by (induction parcels) (auto simp: is_local_owner_def is_non_local_owner_def split: option.splits)

text \<open>
  Claim C4. \<^verbatim>\<open>IsLocal\<close> holds exactly when the owner city/state, trimmed and upper-cased,
  is \<^verbatim>\<open>CHARLOTTESVILLE VA\<close>, so the mixed-case text with a trailing space is local. A
  parcel without an owner city/state is in neither count and in no land-area total: the
  counts and totals are those of the parcels that have the field, and removing such a
  parcel from the table changes nothing.
\<close>

theorem ownership_local_and_null:
  "map IsLocal (parcel_details parcels) =
     map (\<lambda>p. py_upper (py_strip (astype_str (OwnerCityState p))) = ''CHARLOTTESVILLE VA'')
       (filter (\<lambda>p. OwnerCityState p \<noteq> None) parcels)
   \<and> local_parcels (parcel_details parcels) = length (filter is_local_owner parcels)
   \<and> non_local_parcels (parcel_details parcels) = length (filter is_non_local_owner parcels)
   \<and> total_land_area (parcel_details parcels) =
       nansum (map LotSquareFeet (filter (\<lambda>p. OwnerCityState p \<noteq> None) parcels))
   \<and> local_land_area (parcel_details parcels) =
       nansum (map LotSquareFeet (filter is_local_owner parcels))
   \<and> non_local_land_area (parcel_details parcels) =
       nansum (map LotSquareFeet (filter is_non_local_owner parcels))
   \<and> (OwnerCityState p = None \<longrightarrow>
        parcel_details (before @ p # after) = parcel_details (before @ after))
   \<and> IsLocal (clean_parcel (p\<lparr>OwnerCityState := Some ''charlottesville Va ''\<rparr>))"
proof -
  have cls: "map IsLocal (parcel_details parcels) =
     map (\<lambda>p. py_upper (py_strip (astype_str (OwnerCityState p))) = ''CHARLOTTESVILLE VA'')
       (filter (\<lambda>p. OwnerCityState p \<noteq> None) parcels)"
    by (simp add: parcel_details_def IsLocal_clean_parcel o_def)
  have loc: "local_parcels (parcel_details parcels) = length (filter is_local_owner parcels)"
    by (simp add: local_parcels_def filter_IsLocal_details)
  have non: "non_local_parcels (parcel_details parcels) = length (filter is_non_local_owner parcels)"
    unfolding non_local_parcels_def total_parcels_def loc
    using length_filter_split [of parcels] by (simp add: parcel_details_def)
  have tot: "total_land_area (parcel_details parcels) =
       nansum (map LotSquareFeet (filter (\<lambda>p. OwnerCityState p \<noteq> None) parcels))"
    by (simp add: total_land_area_def parcel_details_def o_def LotSquareFeet_clean_parcel)
  have lla: "local_land_area (parcel_details parcels) =
       nansum (map LotSquareFeet (filter is_local_owner parcels))"
    by (simp add: local_land_area_def filter_IsLocal_details o_def LotSquareFeet_clean_parcel)
  have nla: "non_local_land_area (parcel_details parcels) =
       nansum (map LotSquareFeet (filter is_non_local_owner parcels))"
    by (simp add: non_local_land_area_def filter_not_IsLocal_details o_def LotSquareFeet_clean_parcel)
  have null: "OwnerCityState p = None \<longrightarrow>
        parcel_details (before @ p # after) = parcel_details (before @ after)"
    by (simp add: parcel_details_def)
  have ex: "IsLocal (clean_parcel (p\<lparr>OwnerCityState := Some ''charlottesville Va ''\<rparr>))"
    unfolding IsLocal_clean_parcel by (simp add: astype_str_def) code_simp
  from cls loc non tot lla nla null ex show ?thesis by blast
qed


theorem ownership_local_and_null_witness:
  "OwnerCityState (parcel_of ''ACME HOLDINGS LLC'' None 50000) = None
   \<and> parcel_details example_parcels =
       parcel_details [parcel_of ''SMITH JOHN'' (Some ''charlottesville Va '') 8000,
                       parcel_of ''JONES MARY'' (Some ''RICHMOND VA'') 6000]
   \<and> map IsLocal (parcel_details example_parcels) = [True, False]
   \<and> local_parcels (parcel_details example_parcels) = 1
   \<and> non_local_parcels (parcel_details example_parcels) = 1
   \<and> total_land_area (parcel_details example_parcels) = 14000"
proof -
  have n: "OwnerCityState (parcel_of ''ACME HOLDINGS LLC'' None 50000) = None"
    by (simp add: parcel_of_def)
  have d: "parcel_details example_parcels =
       parcel_details [parcel_of ''SMITH JOHN'' (Some ''charlottesville Va '') 8000,
                       parcel_of ''JONES MARY'' (Some ''RICHMOND VA'') 6000]"
    using ownership_local_and_null
      [of "[parcel_of ''SMITH JOHN'' (Some ''charlottesville Va '') 8000,
            parcel_of ''JONES MARY'' (Some ''RICHMOND VA'') 6000]"
          "parcel_of ''ACME HOLDINGS LLC'' None 50000"
          "[parcel_of ''SMITH JOHN'' (Some ''charlottesville Va '') 8000]"
          "[parcel_of ''JONES MARY'' (Some ''RICHMOND VA'') 6000]"] n
    by (simp add: example_parcels_def)
  have l: "map IsLocal (parcel_details example_parcels) = [True, False]"
    unfolding d by code_simp
  have c1: "local_parcels (parcel_details example_parcels) = 1"
    unfolding d by code_simp
  have c2: "non_local_parcels (parcel_details example_parcels) = 1"
    unfolding d by code_simp
  have t: "total_land_area (parcel_details example_parcels) = 14000"
    unfolding d by code_simp
  from n d l c1 c2 t show ?thesis by blast
qed

subsection \<open>Owner ranking\<close>

lemma set_owner_names: "set (owner_names details) = {name. Some name \<in> OwnerName ` set details}"
  by (induction details) (auto simp: owner_names_def split: option.splits)

lemma groupby_OwnerName_alt:
  "groupby_OwnerName details =
     map (\<lambda>name. (name, filter (\<lambda>p. OwnerName p = Some name) details))
       (sort (remdups (owner_names details)))"
  by (simp add: groupby_OwnerName_def)

lemma Owner_agg: "Owner (agg_owner h g) = fst g"
  by (simp add: agg_owner_def)

lemma owners_of_groups:
  "map Owner (map (agg_owner h) (groupby_OwnerName details)) =
     sort (remdups (owner_names details))"
  by (simp add: groupby_OwnerName_alt o_def Owner_agg)

lemma nansum_mset: "mset xs = mset ys \<Longrightarrow> nansum xs = nansum ys"
proof -
  assume eq: "mset xs = mset ys"
  let ?f = "\<lambda>v :: int option. case v of None \<Rightarrow> 0 | Some x \<Rightarrow> x"
  have "mset (map ?f xs) = mset (map ?f ys)"
    using eq by (metis mset_map)
  then have "sum_mset (mset (map ?f xs)) = sum_mset (mset (map ?f ys))" by simp
  then show ?thesis unfolding nansum_def by (simp only: sum_mset_sum_list)
qed

lemma agg_owner_mset:
  assumes "mset g = mset g'"
  shows "agg_owner h (name, g) = agg_owner h (name, g')"
proof -
  have len: "length g = length g'" using assms by (metis size_mset)
  have sq: "nansum (map LotSquareFeet g) = nansum (map LotSquareFeet g')"
    using assms by (intro nansum_mset) (metis mset_map)
  have av: "nansum (map Assessment g) = nansum (map Assessment g')"
    using assms by (intro nansum_mset) (metis mset_map)
  show ?thesis by (simp add: agg_owner_def len sq av)
qed

lemma groups_mset:
  assumes "mset d' = mset d"
  shows "map (agg_owner h) (groupby_OwnerName d') = map (agg_owner h) (groupby_OwnerName d)"
proof -
  have "set d' = set d" using assms by (metis set_mset_mset)
  then have "set (owner_names d') = set (owner_names d)" by (simp add: set_owner_names)
  then have keys: "sort (remdups (owner_names d')) = sort (remdups (owner_names d))"
    by (metis sorted_list_of_set_sort_remdups)
  have grp: "\<And>name. agg_owner h (name, filter (\<lambda>p. OwnerName p = Some name) d') =
      agg_owner h (name, filter (\<lambda>p. OwnerName p = Some name) d)"
    using assms by (intro agg_owner_mset) (metis mset_filter)
  show ?thesis by (simp add: groupby_OwnerName_alt keys o_def grp)
qed

lemma agg_row:
  assumes "r \<in> set (map (agg_owner h) (groupby_OwnerName d))"
  shows "TotalProperties r = length (filter (\<lambda>p. OwnerName p = Some (Owner r)) d)"
  using assms by (auto simp: groupby_OwnerName_alt agg_owner_def)

text \<open>
  Claim C5, as the code has it. For every sort that meets the contract of
  \<^verbatim>\<open>sort_values\<close>, the ranking is in descending order of the property count, so an owner
  with fewer properties never stands before one with more; every owner appears once, with
  the number of its parcels; and the ranking is a function of the rows of the table
  alone: the same rows in any other order give the identical ranking, so the order among
  owners with equal counts does not follow the order in which they are met.
\<close>

theorem top_owners_ranking:
  assumes "sorts_by_TotalProperties_desc sort_values"
  shows "sorted_wrt (\<lambda>a b. TotalProperties a \<ge> TotalProperties b) (top_owners sort_values h d)
   \<and> (\<forall>i j. i < j \<and> j < length (top_owners sort_values h d) \<longrightarrow>
         TotalProperties (top_owners sort_values h d ! j)
           \<le> TotalProperties (top_owners sort_values h d ! i))
   \<and> distinct (map Owner (top_owners sort_values h d))
   \<and> set (map Owner (top_owners sort_values h d)) = {name. Some name \<in> OwnerName ` set d}
   \<and> (\<forall>r \<in> set (top_owners sort_values h d).
         TotalProperties r = length (filter (\<lambda>p. OwnerName p = Some (Owner r)) d))
   \<and> (\<forall>d'. mset d' = mset d \<longrightarrow> top_owners sort_values h d' = top_owners sort_values h d)"
proof -
  let ?groups = "map (agg_owner h) (groupby_OwnerName d)"
  let ?t = "top_owners sort_values h d"
  have perm: "mset ?t = mset ?groups"
    using assms by (simp add: sorts_by_TotalProperties_desc_def top_owners_def)
  have srt: "sorted_wrt (\<lambda>a b. TotalProperties a \<ge> TotalProperties b) ?t"
    using assms by (simp add: sorts_by_TotalProperties_desc_def top_owners_def)
  have nth: "\<forall>i j. i < j \<and> j < length ?t \<longrightarrow> TotalProperties (?t ! j) \<le> TotalProperties (?t ! i)"
    using srt by (simp add: sorted_wrt_iff_nth_less)
  have names: "mset (map Owner ?t) = mset (sort (remdups (owner_names d)))"
    using perm by (metis mset_map owners_of_groups)
  have "distinct (sort (remdups (owner_names d)))" by simp
  then have dist: "distinct (map Owner ?t)"
    using names by (metis mset_eq_imp_distinct_iff)
  have "set (map Owner ?t) = set (sort (remdups (owner_names d)))"
    using names by (metis set_mset_mset)
  then have set_eq: "set (map Owner ?t) = {name. Some name \<in> OwnerName ` set d}"
    by (simp add: set_owner_names)
  have "set ?t = set ?groups" using perm by (metis set_mset_mset)
  then have cnt: "\<forall>r \<in> set ?t. TotalProperties r = length (filter (\<lambda>p. OwnerName p = Some (Owner r)) d)"
    using agg_row by blast
  have inv: "\<forall>d'. mset d' = mset d \<longrightarrow> top_owners sort_values h d' = top_owners sort_values h d"
  proof (intro allI impI)
    fix d' :: "parcel_detail list"
    assume "mset d' = mset d"
    from groups_mset [OF this, of h]
    show "top_owners sort_values h d' = top_owners sort_values h d"
      by (simp only: top_owners_def)
  qed
  from srt nth dist set_eq cnt inv show ?thesis by blast
qed

lemma stable_sort_meets_contract:
  "sorts_by_TotalProperties_desc stable_sort_TotalProperties_desc"
proof -
  have "sorted_wrt (\<lambda>a b. TotalProperties a \<ge> TotalProperties b) (stable_sort_TotalProperties_desc rows)"
    for rows
  proof -
    have "sorted (map (\<lambda>r. - int (TotalProperties r)) (stable_sort_TotalProperties_desc rows))"
      unfolding stable_sort_TotalProperties_desc_def by (rule sorted_sort_key)
    then show ?thesis by (simp add: sorted_map)
  qed
  then show ?thesis
    by (simp add: sorts_by_TotalProperties_desc_def stable_sort_TotalProperties_desc_def)
qed

theorem top_owners_ranking_witness:
  "map (\<lambda>r. (Owner r, TotalProperties r))
     (top_owners stable_sort_TotalProperties_desc False (parcel_details example_owner_parcels)) =
     [(''JONES MARY'', 2), (''SMITH JOHN'', 2), (''ZETA LLC'', 1)]
   \<and> sorted_wrt (\<lambda>a b. TotalProperties a \<ge> TotalProperties b)
       (top_owners stable_sort_TotalProperties_desc False (parcel_details example_owner_parcels))
   \<and> top_owners stable_sort_TotalProperties_desc False (parcel_details (rev example_owner_parcels)) =
       top_owners stable_sort_TotalProperties_desc False (parcel_details example_owner_parcels)"
proof -
  note ranking = top_owners_ranking [OF stable_sort_meets_contract, of False "parcel_details example_owner_parcels"]
  have rows: "map (\<lambda>r. (Owner r, TotalProperties r))
     (top_owners stable_sort_TotalProperties_desc False (parcel_details example_owner_parcels)) =
     [(''JONES MARY'', 2), (''SMITH JOHN'', 2), (''ZETA LLC'', 1)]"
    by code_simp
  have "mset (parcel_details (rev example_owner_parcels)) = mset (parcel_details example_owner_parcels)"
    by (simp add: parcel_details_def flip: rev_filter rev_map)
  with ranking rows show ?thesis by blast
qed

text \<open>
  Claim C5, as stated, fails. SMITH is met before JONES and both own two parcels, yet
  JONES is ranked first, even by a stable sort: the groups reach the sort in name order.
  For any sort, the reversed table, where JONES is met first, gives the same groups and
  so the same ranking.
\<close>

theorem top_owners_ties_not_in_encounter_order:
  "drop_duplicates (map OwnerName example_owner_parcels) =
     [Some ''SMITH JOHN'', Some ''JONES MARY'', Some ''ZETA LLC'']
   \<and> map (\<lambda>r. (Owner r, TotalProperties r))
     (top_owners stable_sort_TotalProperties_desc False (parcel_details example_owner_parcels)) =
     [(''JONES MARY'', 2), (''SMITH JOHN'', 2), (''ZETA LLC'', 1)]
   \<and> map (agg_owner False) (groupby_OwnerName (parcel_details (rev example_owner_parcels))) =
       map (agg_owner False) (groupby_OwnerName (parcel_details example_owner_parcels))
   \<and> drop_duplicates (map OwnerName (rev example_owner_parcels)) =
     [Some ''JONES MARY'', Some ''SMITH JOHN'', Some ''ZETA LLC'']"
  by code_simp

subsection \<open>Property search: the query as a pattern\<close>

text \<open>The derivative matcher decides the matching relation.\<close>

inductive_simps matches_Never [simp]: "matches Never s"
inductive_simps matches_Empty [simp]: "matches Empty s"
inductive_simps matches_Literal [simp]: "matches (Literal l) s"
inductive_simps matches_Any [simp]: "matches Any s"
inductive_simps matches_Seq: "matches (Seq r r') s"
inductive_simps matches_Branch [simp]: "matches (Branch r r') s"
inductive_simps matches_Plus: "matches (Plus r) s"
inductive_simps matches_Opt: "matches (Opt r) s"
inductive_simps matches_Subpattern [simp]: "matches (Subpattern r) s"

lemma matches_Star_cases:
  "matches (Star r) s \<longleftrightarrow> s = [] \<or> (\<exists>s1 s2. s = s1 @ s2 \<and> s1 \<noteq> [] \<and> matches r s1 \<and> matches (Star r) s2)"
proof
  assume "matches (Star r) s"
  then show "s = [] \<or> (\<exists>s1 s2. s = s1 @ s2 \<and> s1 \<noteq> [] \<and> matches r s1 \<and> matches (Star r) s2)"
  proof (induction "Star r" s rule: matches.induct)
    case m_StarNil
    then show ?case by simp
  next
    case (m_StarStep s s')
    then show ?case by (cases "s = []") auto
  qed
next
  assume "s = [] \<or> (\<exists>s1 s2. s = s1 @ s2 \<and> s1 \<noteq> [] \<and> matches r s1 \<and> matches (Star r) s2)"
  then show "matches (Star r) s"
    by (auto intro: matches.intros)
qed

lemma nullable_matches: "nullable r \<longleftrightarrow> matches r []"
proof (induction r)
  case (Star r)
  show ?case by (simp add: m_StarNil)
qed (auto simp: matches_Seq matches_Plus matches_Opt intro: m_StarNil)

lemma deriv_matches: "matches (deriv c r) s \<longleftrightarrow> matches r (c # s)"
proof (induction r arbitrary: s)
  case (Seq r1 r2)
  show ?case
    by (auto simp: matches_Seq Seq nullable_matches Cons_eq_append_conv)
next
  case (Star r)
  have "matches (Star r) (c # s) \<longleftrightarrow>
      (\<exists>s1 s2. c # s = s1 @ s2 \<and> s1 \<noteq> [] \<and> matches r s1 \<and> matches (Star r) s2)"
    by (subst matches_Star_cases) simp
  also have "\<dots> \<longleftrightarrow> (\<exists>t s2. s = t @ s2 \<and> matches r (c # t) \<and> matches (Star r) s2)"
    by (auto simp: Cons_eq_append_conv)
  finally show ?case by (simp add: matches_Seq Star)
next
  case (Plus r)
  have "matches (Plus r) (c # s) \<longleftrightarrow>
      (\<exists>s1 s2. c # s = s1 @ s2 \<and> matches r s1 \<and> matches (Star r) s2)"
    by (simp add: matches_Plus)
  also have "\<dots> \<longleftrightarrow> (\<exists>s1 s2. c # s = s1 @ s2 \<and> s1 \<noteq> [] \<and> matches r s1 \<and> matches (Star r) s2)"
  proof
    assume "\<exists>s1 s2. c # s = s1 @ s2 \<and> matches r s1 \<and> matches (Star r) s2"
    then obtain s1 s2 where h: "c # s = s1 @ s2" "matches r s1" "matches (Star r) s2" by blast
    show "\<exists>s1 s2. c # s = s1 @ s2 \<and> s1 \<noteq> [] \<and> matches r s1 \<and> matches (Star r) s2"
    proof (cases "s1 = []")
      case True
      with h have "matches (Star r) (c # s)" by simp
      then show ?thesis by (subst (asm) matches_Star_cases) simp
    next
      case False
      with h show ?thesis by blast
    qed
  qed blast
  also have "\<dots> \<longleftrightarrow> (\<exists>t s2. s = t @ s2 \<and> matches r (c # t) \<and> matches (Star r) s2)"
    by (auto simp: Cons_eq_append_conv)
  finally show ?case by (simp add: matches_Seq Plus)
qed (auto simp: matches_Opt)

lemma match_here_matches: "match_here r s \<longleftrightarrow> (\<exists>p. prefix p s \<and> matches r p)"
proof (induction s arbitrary: r)
  case Nil
  show ?case by (simp add: nullable_matches)
next
  case (Cons c cs)
  show ?case
    by (auto simp: Cons nullable_matches deriv_matches prefix_Cons)
qed

lemma re_search_matches: "re_search r s \<longleftrightarrow> (\<exists>m. sublist m s \<and> matches r m)"
proof (induction s)
  case Nil
  show ?case by (simp add: nullable_matches)
next
  case (Cons c cs)
  have "re_search r (c # cs) \<longleftrightarrow>
      (\<exists>p. prefix p (c # cs) \<and> matches r p) \<or> (\<exists>m. sublist m cs \<and> matches r m)"
    using Cons by (simp only: re_search.simps match_here_matches)
  then show ?case by (auto simp: sublist_Cons_right)
qed

lemma of_char_upper:
  "(of_char (py_upper_char c) :: nat) =
     (if 97 \<le> (of_char c :: nat) \<and> (of_char c :: nat) \<le> 122 then of_char c - 32 else of_char c)"
  by (auto simp: py_upper_char_def Let_def)

lemma py_lower_upper_char: "py_lower_char (py_upper_char c) = py_lower_char c"
proof (cases "97 \<le> (of_char c :: nat) \<and> (of_char c :: nat) \<le> 122")
  case True
  then have u: "(of_char (py_upper_char c) :: nat) = of_char c - 32"
    by (simp add: of_char_upper)
  have rng: "65 \<le> (of_char c :: nat) - 32 \<and> (of_char c :: nat) - 32 \<le> 90"
    using True by arith
  have restore: "(of_char c :: nat) - 32 + 32 = of_char c" using True by arith
  have "py_lower_char (py_upper_char c) = char_of ((of_char c :: nat) - 32 + 32)"
    unfolding py_lower_char_def Let_def u using rng by simp
  also have "\<dots> = c" unfolding restore by simp
  also have "c = py_lower_char c" using True by (simp add: py_lower_char_def Let_def)
  finally show ?thesis .
next
  case False
  then show ?thesis by (auto simp: py_upper_char_def Let_def)
qed

lemma py_lower_upper: "py_lower (py_upper s) = py_lower s"
  by (simp add: py_lower_def py_upper_def py_lower_upper_char)

lemma re_special_not_upper_letter:
  "re_special x \<Longrightarrow> \<not> (65 \<le> (of_char x :: nat) \<and> (of_char x :: nat) \<le> 90)"
  by (auto simp: re_special_def)

lemma re_special_upper: "\<not> re_special c \<Longrightarrow> \<not> re_special (py_upper_char c)"
proof (cases "97 \<le> (of_char c :: nat) \<and> (of_char c :: nat) \<le> 122")
  case True
  then have "65 \<le> (of_char (py_upper_char c) :: nat) \<and> (of_char (py_upper_char c) :: nat) \<le> 90"
    unfolding of_char_upper by simp arith
  then show ?thesis using re_special_not_upper_letter by blast
next
  case False
  assume "\<not> re_special c"
  with False show ?thesis by (auto simp: py_upper_char_def Let_def)
qed

lemma tokenize_plain: "\<forall>c \<in> set q. c \<noteq> CHR 0x5C \<Longrightarrow> tokenize q = map Plain q"
  by (induction q rule: tokenize.induct) auto

lemma sre_step_literal:
  "\<not> re_special c \<Longrightarrow>
     sre_step (Plain c) next (alts, items, stack) = Inr (alts, items @ [Literal c], stack)"
  by (auto simp: re_special_def sre_step_def)

lemma sre_parse_literals:
  "\<forall>c \<in> set q. \<not> re_special c \<Longrightarrow>
     sre_parse (map Plain q) (alts, items, stack) =
       sre_parse [] (alts, items @ map Literal q, stack)"
  by (induction q arbitrary: items) (simp_all add: sre_step_literal)

lemma re_compile_literal:
  assumes "\<forall>c \<in> set q. \<not> re_special c"
  shows "re_compile q = Inr (mk_seq (map Literal q))"
proof -
  have "\<forall>c \<in> set q. c \<noteq> CHR 0x5C" using assms by (auto simp: re_special_def)
  then have "tokenize q = map Plain q" by (rule tokenize_plain)
  then show ?thesis
    using sre_parse_literals [OF assms, of "[]" "[]" "[]"]
    by (simp add: re_compile_def close_pattern_def)
qed

lemma match_here_Seq_Never: "match_here (Seq Never r) s = False"
  by (induction s) simp_all

lemma match_here_Branch: "match_here (Branch a b) s = (match_here a s \<or> match_here b s)"
  by (induction s arbitrary: a b) auto

lemma match_here_Empty: "match_here Empty s = True"
  by (cases s) simp_all

lemma match_here_Seq_Empty: "match_here (Seq Empty r) s = match_here r s"
  by (cases s) (simp_all add: match_here_Branch match_here_Seq_Never)

lemma match_here_literals:
  "match_here (mk_seq (map Literal l)) s = prefix (map py_lower_char l) (map py_lower_char s)"
proof (induction l arbitrary: s)
  case Nil
  then show ?case by (simp add: mk_seq_def match_here_Empty)
next
  case (Cons a l)
  have step: "mk_seq (Literal a # map Literal l) = Seq (Literal a) (mk_seq (map Literal l))"
    by (simp add: mk_seq_def)
  show ?case
  proof (cases s)
    case Nil
    then show ?thesis by (simp add: step)
  next
    case (Cons c cs)
    then show ?thesis
      using Cons.IH [of cs]
      by (auto simp: step match_here_Seq_Empty match_here_Seq_Never)
  qed
qed

lemma nullable_literals: "nullable (mk_seq (map Literal l)) = (l = [])"
  by (cases l) (simp_all add: mk_seq_def)

lemma re_search_literals:
  "re_search (mk_seq (map Literal l)) s = sublist (map py_lower_char l) (map py_lower_char s)"
proof (induction s)
  case Nil
  then show ?case by (simp add: nullable_literals)
next
  case (Cons c cs)
  have "re_search (mk_seq (map Literal l)) (c # cs) =
      (prefix (map py_lower_char l) (map py_lower_char (c # cs))
        \<or> sublist (map py_lower_char l) (map py_lower_char cs))"
    using Cons.IH by (simp only: re_search.simps match_here_literals)
  then show ?case by (simp add: sublist_Cons_right)
qed

lemma str_contains_literal:
  assumes "\<forall>c \<in> set q. \<not> re_special c"
  shows "str_contains (py_upper q) col =
     Inr (map (\<lambda>cell. case cell of None \<Rightarrow> False | Some s \<Rightarrow> contains_ignorecase q s) col)"
proof -
  have "\<forall>c \<in> set (py_upper q). \<not> re_special c"
    using assms by (auto simp: py_upper_def re_special_upper)
  then have "re_compile (py_upper q) = Inr (mk_seq (map Literal (py_upper q)))"
    by (rule re_compile_literal)
  moreover have "map py_lower_char (py_upper q) = py_lower q"
    using py_lower_upper [of q] by (simp add: py_lower_def)
  ultimately show ?thesis
    by (simp add: str_contains_def re_search_literals contains_ignorecase_def py_lower_def
        split: option.split)
qed

lemma filter_by_two_columns:
  "map fst (filter (\<lambda>(r, a, s). a \<or> s) (zip rows (zip (map f rows) (map g rows)))) =
     filter (\<lambda>r. f r \<or> g r) rows"
  by (induction rows) auto

lemma matching_properties_literal:
  assumes "\<forall>c \<in> set q. \<not> re_special c"
  shows "matching_properties q rows = Inr (filter (matches_query q) rows)"
proof -
  have "matching_properties q rows =
      Inr (map fst (filter (\<lambda>(r, a, s). a \<or> s)
        (zip rows (zip (map (\<lambda>r. contains_ignorecase q (FullAddress r)) rows)
           (map (\<lambda>r. case StreetName r of None \<Rightarrow> False | Some name \<Rightarrow> contains_ignorecase q name)
              rows)))))"
    by (simp add: matching_properties_def str_contains_literal [OF assms] o_def)
  then show ?thesis
    unfolding filter_by_two_columns matches_query_def .
qed

lemma str_contains_compiled:
  "str_contains pat col =
     (case re_compile pat of
        Inl e \<Rightarrow> Inl e
      | Inr r \<Rightarrow> Inr (map (\<lambda>cell. case cell of None \<Rightarrow> False
                                  | Some s \<Rightarrow> (\<exists>m. sublist m s \<and> matches r m)) col))"
  by (auto simp: str_contains_def re_search_matches split: sum.split option.split)

lemma matching_properties_compiled:
  assumes "re_compile (py_upper query) = Inr r"
  shows "matching_properties query rows =
     Inr (filter (\<lambda>row. (\<exists>m. sublist m (FullAddress row) \<and> matches r m)
                     \<or> (case StreetName row of None \<Rightarrow> False
                         | Some name \<Rightarrow> (\<exists>m. sublist m name \<and> matches r m))) rows)"
proof -
  have "matching_properties query rows =
      Inr (map fst (filter (\<lambda>(r, a, s). a \<or> s)
        (zip rows (zip (map (\<lambda>row. \<exists>m. sublist m (FullAddress row) \<and> matches r m) rows)
           (map (\<lambda>row. case StreetName row of None \<Rightarrow> False
                        | Some name \<Rightarrow> (\<exists>m. sublist m name \<and> matches r m)) rows)))))"
    by (simp add: matching_properties_def str_contains_compiled assms o_def)
  then show ?thesis
    unfolding filter_by_two_columns .
qed

lemma matching_properties_raises:
  assumes "re_compile (py_upper query) = Inl e"
  shows "matching_properties query rows = Inl e"
  by (simp add: matching_properties_def str_contains_def assms)

text \<open>
  Claim C10. The query, upper-cased, is compiled as a regular expression: when it
  compiles, the matching rows are those in whose full address or street name some
  substring is matched by the pattern, and when it does not, the search raises
  \<^verbatim>\<open>re.error\<close>. For every query without a special character this is the substring
  rule. The query that is a single opening parenthesis has a special character and does
  not compile: for it the search raises, whatever the table, and returns neither the
  empty result nor the rows that contain a parenthesis.
\<close>

theorem search_is_regex:
  "(\<forall>r. re_compile (py_upper query) = Inr r \<longrightarrow>
       matching_properties query rows =
         Inr (filter (\<lambda>row. (\<exists>m. sublist m (FullAddress row) \<and> matches r m)
                         \<or> (case StreetName row of None \<Rightarrow> False
                             | Some name \<Rightarrow> (\<exists>m. sublist m name \<and> matches r m))) rows))
   \<and> (re_compile (py_upper query) = Inl ReError \<longrightarrow> matching_properties query rows = Inl ReError)
   \<and> ((\<forall>c \<in> set query. \<not> re_special c) \<longrightarrow>
       matching_properties query rows = Inr (filter (matches_query query) rows))
   \<and> \<not> (\<forall>c \<in> set ''(''. \<not> re_special c)
   \<and> re_compile (py_upper ''('') = Inl ReError
   \<and> matching_properties ''('' rows = Inl ReError
   \<and> property_search selectbox sort_values ''('' assessments = Inl ReError"
proof -
  have pat: "\<forall>r. re_compile (py_upper query) = Inr r \<longrightarrow>
       matching_properties query rows =
         Inr (filter (\<lambda>row. (\<exists>m. sublist m (FullAddress row) \<and> matches r m)
                         \<or> (case StreetName row of None \<Rightarrow> False
                             | Some name \<Rightarrow> (\<exists>m. sublist m name \<and> matches r m))) rows)"
    using matching_properties_compiled by blast
  have err: "re_compile (py_upper query) = Inl ReError \<longrightarrow>
      matching_properties query rows = Inl ReError"
    using matching_properties_raises by blast
  have lit: "(\<forall>c \<in> set query. \<not> re_special c) \<longrightarrow>
       matching_properties query rows = Inr (filter (matches_query query) rows)"
    by (simp add: matching_properties_literal)
  have sp: "\<not> (\<forall>c \<in> set ''(''. \<not> re_special c)"
    by (simp add: re_special_def)
  have up: "py_upper ''('' = ''(''" by code_simp
  have comp: "re_compile (py_upper ''('') = Inl ReError"
    unfolding up by (simp add: re_compile_def sre_step_def)
  then have bad: "matching_properties ''('' rs = Inl ReError" for rs
    by (rule matching_properties_raises)
  have "property_search selectbox sort_values ''('' assessments = Inl ReError"
    by (simp add: property_search_def bad)
  with pat err lit sp comp bad show ?thesis by blast
qed

theorem search_is_regex_witness:
  "map FullAddress example_addresses = [''123 MAIN ST'', ''45 MAIN ST'', ''7 OAK AVE'']
   \<and> matching_properties ''MAIN'' example_addresses = Inr (take 2 example_addresses)
   \<and> re_compile (py_upper ''m.in'') =
       Inr (Seq (Literal CHR ''M'') (Seq Any (Seq (Literal CHR ''I'') (Seq (Literal CHR ''N'') Empty))))
   \<and> filter (\<lambda>row. (\<exists>m. sublist m (FullAddress row) \<and>
          matches (Seq (Literal CHR ''M'') (Seq Any (Seq (Literal CHR ''I'') (Seq (Literal CHR ''N'') Empty)))) m)
        \<or> (case StreetName row of None \<Rightarrow> False
            | Some name \<Rightarrow> (\<exists>m. sublist m name \<and>
          matches (Seq (Literal CHR ''M'') (Seq Any (Seq (Literal CHR ''I'') (Seq (Literal CHR ''N'') Empty)))) m)))
        example_addresses = take 2 example_addresses
   \<and> re_compile (py_upper ''main ('') = Inl ReError
   \<and> matching_properties ''main ('' example_addresses = Inl ReError"
proof -
  have a: "map FullAddress example_addresses = [''123 MAIN ST'', ''45 MAIN ST'', ''7 OAK AVE'']"
    by code_simp
  have plain: "\<forall>c \<in> set ''MAIN''. \<not> re_special c"
    by (simp add: re_special_def)
  have "filter (matches_query ''MAIN'') example_addresses = take 2 example_addresses"
    by code_simp
  with search_is_regex [of "''MAIN''" example_addresses] plain
  have lit: "matching_properties ''MAIN'' example_addresses = Inr (take 2 example_addresses)"
    by simp
  have comp: "re_compile (py_upper ''m.in'') =
       Inr (Seq (Literal CHR ''M'') (Seq Any (Seq (Literal CHR ''I'') (Seq (Literal CHR ''N'') Empty))))"
    by code_simp
  have run: "matching_properties ''m.in'' example_addresses = Inr (take 2 example_addresses)"
    by code_simp
  from search_is_regex [of "''m.in''" example_addresses] comp run
  have dot: "filter (\<lambda>row. (\<exists>m. sublist m (FullAddress row) \<and>
          matches (Seq (Literal CHR ''M'') (Seq Any (Seq (Literal CHR ''I'') (Seq (Literal CHR ''N'') Empty)))) m)
        \<or> (case StreetName row of None \<Rightarrow> False
            | Some name \<Rightarrow> (\<exists>m. sublist m name \<and>
          matches (Seq (Literal CHR ''M'') (Seq Any (Seq (Literal CHR ''I'') (Seq (Literal CHR ''N'') Empty)))) m)))
        example_addresses = take 2 example_addresses"
    by simp
  have bad: "re_compile (py_upper ''main ('') = Inl ReError"
    by code_simp
  with search_is_regex [of "''main (''" example_addresses]
  have raised: "matching_properties ''main ('' example_addresses = Inl ReError"
    by blast
  from a lit comp dot bad raised show ?thesis by blast
qed

text \<open>
  Claim C6, evaluated on the code. Against the addresses 123 MAIN ST, 45 MAIN ST and
  7 OAK AVE the query \<^verbatim>\<open>A.E\<close> is a substring of no full address and of no street name,
  yet the search returns the record of 7 OAK AVE: the dot is read as "any character".
\<close>

theorem search_dot_matches_any_character:
  "map FullAddress example_addresses = [''123 MAIN ST'', ''45 MAIN ST'', ''7 OAK AVE'']
   \<and> filter (matches_query ''A.E'') example_addresses = []
   \<and> matching_properties ''A.E'' example_addresses = Inr (drop 2 example_addresses)"
  by code_simp

subsection \<open>Property search: zero, one or many matches\<close>

lemma set_drop_duplicates_from: "set (drop_duplicates_from seen xs) = set xs - set seen"
  by (induction xs arbitrary: seen) auto

lemma distinct_drop_duplicates_from: "distinct (drop_duplicates_from seen xs)"
  by (induction xs arbitrary: seen) (auto simp: set_drop_duplicates_from)

lemma set_unique_addresses:
  "set (unique_addresses matching) = (\<lambda>r. (ParcelNumber r, FullAddress r)) ` set matching"
  by (simp add: unique_addresses_def drop_duplicates_def set_drop_duplicates_from)

lemma distinct_unique_addresses: "distinct (unique_addresses matching)"
  by (simp add: unique_addresses_def drop_duplicates_def distinct_drop_duplicates_from)

lemma unique_addresses_single:
  assumes "(\<lambda>r. (ParcelNumber r, FullAddress r)) ` set matching = {pa}"
  shows "unique_addresses matching = [pa]"
proof -
  have s: "set (unique_addresses matching) = {pa}"
    using assms by (simp add: set_unique_addresses)
  have d: "distinct (unique_addresses matching)" by (rule distinct_unique_addresses)
  show ?thesis
  proof (cases "unique_addresses matching")
    case Nil
    with s show ?thesis by simp
  next
    case (Cons x xs)
    from s Cons have x: "x = pa" by auto
    have sub: "\<And>y. y \<in> set xs \<Longrightarrow> y = pa"
      using s Cons by auto
    have notin: "pa \<notin> set xs"
      using d Cons x by simp
    have "xs = []"
    proof (cases xs)
      case Nil
      then show ?thesis .
    next
      case inner: (Cons y ys)
      then have "y \<in> set xs" by simp
      with sub notin show ?thesis by blast
    qed
    with Cons x show ?thesis by simp
  qed
qed

lemma unique_addresses_many:
  assumes "r1 \<in> set matching" "r2 \<in> set matching" "FullAddress r1 \<noteq> FullAddress r2"
  shows "length (unique_addresses matching) > 1"
proof -
  let ?u = "unique_addresses matching"
  have in1: "(ParcelNumber r1, FullAddress r1) \<in> set ?u"
    and in2: "(ParcelNumber r2, FullAddress r2) \<in> set ?u"
    using assms by (auto simp: set_unique_addresses)
  have ne: "(ParcelNumber r1, FullAddress r1) \<noteq> (ParcelNumber r2, FullAddress r2)"
    using assms by simp
  show ?thesis
  proof (cases ?u)
    case Nil
    with in1 show ?thesis by simp
  next
    case (Cons x xs)
    show ?thesis
    proof (cases xs)
      case Nil
      with Cons in1 in2 ne show ?thesis by auto
    next
      case (Cons y ys)
      with \<open>?u = x # xs\<close> show ?thesis by simp
    qed
  qed
qed

lemma select_property_single:
  "select_property selectbox [(p, a)] = Inr (a, p)"
  by (simp add: select_property_def iloc0_def)

lemma select_property_many:
  assumes "length unique > 1" "selectbox (map snd unique) \<in> set (map snd unique)"
  shows "\<exists>p. find (\<lambda>(p, a). a = selectbox (map snd unique)) unique = Some (p, selectbox (map snd unique))
     \<and> select_property selectbox unique = Inr (selectbox (map snd unique), p)"
proof -
  let ?picked = "selectbox (map snd unique)"
  have pick: "\<exists>p. find (\<lambda>(p, a). a = x) u = Some (p, x)
      \<and> iloc0 (map fst (filter (\<lambda>(p, a). a = x) u)) = Inr p"
    if "x \<in> set (map snd u)" for u :: "(string \<times> string) list" and x
    using that
  proof (induction u)
    case Nil
    then show ?case by simp
  next
    case (Cons pa u)
    obtain p a where pa: "pa = (p, a)" by (cases pa)
    show ?case
    proof (cases "a = x")
      case True
      then show ?thesis by (simp add: pa iloc0_def)
    next
      case False
      with Cons.prems pa have "x \<in> set (map snd u)" by auto
      from Cons.IH [OF this] False show ?thesis by (simp add: pa)
    qed
  qed
  from pick [OF assms(2)] obtain p where
    f: "find (\<lambda>(p, a). a = ?picked) unique = Some (p, ?picked)" and
    i: "iloc0 (map fst (filter (\<lambda>(p, a). a = ?picked) unique)) = Inr p" by blast
  have "select_property selectbox unique = Inr (?picked, p)"
    using assms(1) by (simp add: select_property_def Let_def i)
  with f show ?thesis by blast
qed

lemma stable_sort_TaxYear_meets_contract: "sorts_by_TaxYear stable_sort_TaxYear"
  by (simp add: sorts_by_TaxYear_def stable_sort_TaxYear_def)

lemma property_search_selected:
  assumes "search_address \<noteq> []"
    and "matching_properties search_address (map add_FullAddress assessments) = Inr matching"
    and "matching \<noteq> []"
    and "select_property selectbox (unique_addresses matching) = Inr (a, p)"
  shows "property_search selectbox sort_values search_address assessments =
     Inr (Some \<lparr>selected_address = a, selected_parcel = p,
       property_history =
         sort_values (filter (\<lambda>r. ParcelNumber r = p) (map add_FullAddress assessments))\<rparr>)"
  using assms by (simp add: property_search_def Let_def)

lemma st_selectbox_untouched: "st_selectbox None (a # options) = a"
  by (simp add: st_selectbox_def)

lemma st_selectbox_picked:
  "i < length options \<Longrightarrow> st_selectbox (Some i) options = options ! i"
  by (cases options) (simp_all add: st_selectbox_def)

text \<open>
  Claim C7, as the code has it. For a query that compiles: with no matching row the result
  is empty; when all matching rows carry one (parcel, address) pair, that pair is
  selected, whatever the select box would say; two distinct addresses among the matches
  make two pairs or more, and then the select box decides without ever holding the
  lookup back: while the user has not touched it, the first listed pair is selected and
  its history returned at once, and once the user has picked the address at a position
  of the list, that address is selected, with the parcel of the first pair that carries
  it. In every case the history returned is the selected parcel's rows, in ascending
  order of the tax year, for any sort that meets the contract of \<^verbatim>\<open>sort_values\<close>.
\<close>

theorem property_search_policy:
  assumes "search_address \<noteq> []"
    and "matching_properties search_address (map add_FullAddress assessments) = Inr matching"
  shows "(matching = [] \<longrightarrow>
            property_search selectbox sort_values search_address assessments = Inr None)
   \<and> ((\<lambda>r. (ParcelNumber r, FullAddress r)) ` set matching = {(p, a)} \<longrightarrow>
         property_search selectbox sort_values search_address assessments =
           Inr (Some \<lparr>selected_address = a, selected_parcel = p,
             property_history =
               sort_values (filter (\<lambda>r. ParcelNumber r = p) (map add_FullAddress assessments))\<rparr>))
   \<and> (r1 \<in> set matching \<and> r2 \<in> set matching \<and> FullAddress r1 \<noteq> FullAddress r2 \<longrightarrow>
         length (unique_addresses matching) > 1)
   \<and> (unique_addresses matching = (p0, a0) # rest \<and> rest \<noteq> [] \<longrightarrow>
         property_search (st_selectbox None) sort_values search_address assessments =
           Inr (Some \<lparr>selected_address = a0, selected_parcel = p0,
             property_history =
               sort_values (filter (\<lambda>r. ParcelNumber r = p0) (map add_FullAddress assessments))\<rparr>))
   \<and> (length (unique_addresses matching) > 1 \<and> i < length (unique_addresses matching) \<longrightarrow>
         (\<exists>parcel.
            find (\<lambda>(p, a). a = snd (unique_addresses matching ! i)) (unique_addresses matching) =
              Some (parcel, snd (unique_addresses matching ! i))
            \<and> property_search (st_selectbox (Some i)) sort_values search_address assessments =
                Inr (Some \<lparr>selected_address = snd (unique_addresses matching ! i),
                  selected_parcel = parcel,
                  property_history =
                    sort_values (filter (\<lambda>r. ParcelNumber r = parcel)
                      (map add_FullAddress assessments))\<rparr>)))
   \<and> (sorts_by_TaxYear sort_values \<longrightarrow>
        (\<forall>v. property_search selectbox sort_values search_address assessments = Inr (Some v) \<longrightarrow>
           sorted (map TaxYear (property_history v))
           \<and> mset (property_history v) =
               mset (filter (\<lambda>r. ParcelNumber r = selected_parcel v)
                 (map add_FullAddress assessments))))"
proof -
  let ?all = "map add_FullAddress assessments"
  let ?u = "unique_addresses matching"
  let ?search = "property_search selectbox sort_values search_address assessments"
  have zero: "matching = [] \<longrightarrow> ?search = Inr None"
    using assms by (simp add: property_search_def Let_def)
  have one: "(\<lambda>r. (ParcelNumber r, FullAddress r)) ` set matching = {(p, a)} \<longrightarrow>
         ?search = Inr (Some \<lparr>selected_address = a, selected_parcel = p,
             property_history = sort_values (filter (\<lambda>r. ParcelNumber r = p) ?all)\<rparr>)"
  proof
    assume single: "(\<lambda>r. (ParcelNumber r, FullAddress r)) ` set matching = {(p, a)}"
    then have ne: "matching \<noteq> []" by auto
    have "?u = [(p, a)]"
      using single by (rule unique_addresses_single)
    then have "select_property selectbox ?u = Inr (a, p)"
      by (simp add: select_property_single)
    from property_search_selected [OF assms ne this]
    show "?search = Inr (Some \<lparr>selected_address = a, selected_parcel = p,
             property_history = sort_values (filter (\<lambda>r. ParcelNumber r = p) ?all)\<rparr>)" .
  qed
  have two: "r1 \<in> set matching \<and> r2 \<in> set matching \<and> FullAddress r1 \<noteq> FullAddress r2 \<longrightarrow>
         length ?u > 1"
    by (blast intro: unique_addresses_many)
  have ne_of: "matching \<noteq> []" if "length ?u > 1"
    using that by (auto simp: unique_addresses_def drop_duplicates_def)
  have untouched: "?u = (p0, a0) # rest \<and> rest \<noteq> [] \<longrightarrow>
         property_search (st_selectbox None) sort_values search_address assessments =
           Inr (Some \<lparr>selected_address = a0, selected_parcel = p0,
             property_history = sort_values (filter (\<lambda>r. ParcelNumber r = p0) ?all)\<rparr>)"
  proof
    assume h: "?u = (p0, a0) # rest \<and> rest \<noteq> []"
    then have len: "length ?u > 1" by (cases rest) simp_all
    have "select_property (st_selectbox None) ?u = Inr (a0, p0)"
      using h len by (simp add: select_property_def Let_def st_selectbox_untouched iloc0_def)
    from property_search_selected [OF assms ne_of [OF len] this]
    show "property_search (st_selectbox None) sort_values search_address assessments =
           Inr (Some \<lparr>selected_address = a0, selected_parcel = p0,
             property_history = sort_values (filter (\<lambda>r. ParcelNumber r = p0) ?all)\<rparr>)" .
  qed
  have picked: "length ?u > 1 \<and> i < length ?u \<longrightarrow>
         (\<exists>parcel.
            find (\<lambda>(p, a). a = snd (?u ! i)) ?u = Some (parcel, snd (?u ! i))
            \<and> property_search (st_selectbox (Some i)) sort_values search_address assessments =
                Inr (Some \<lparr>selected_address = snd (?u ! i), selected_parcel = parcel,
                  property_history = sort_values (filter (\<lambda>r. ParcelNumber r = parcel) ?all)\<rparr>))"
  proof
    assume h: "length ?u > 1 \<and> i < length ?u"
    then have len: "length ?u > 1" and i: "i < length (map snd ?u)" by simp_all
    have val: "st_selectbox (Some i) (map snd ?u) = snd (?u ! i)"
      using st_selectbox_picked [OF i] h by simp
    have "map snd ?u ! i \<in> set (map snd ?u)"
      using i by (rule nth_mem)
    then have mem: "st_selectbox (Some i) (map snd ?u) \<in> set (map snd ?u)"
      using st_selectbox_picked [OF i] by simp
    from select_property_many [of ?u "st_selectbox (Some i)", OF len mem]
    obtain parcel where
      f: "find (\<lambda>(p, a). a = st_selectbox (Some i) (map snd ?u)) ?u =
            Some (parcel, st_selectbox (Some i) (map snd ?u))" and
      sel: "select_property (st_selectbox (Some i)) ?u =
            Inr (st_selectbox (Some i) (map snd ?u), parcel)"
      by blast
    from f have f': "find (\<lambda>(p, a). a = snd (?u ! i)) ?u = Some (parcel, snd (?u ! i))"
      unfolding val .
    from sel have sel': "select_property (st_selectbox (Some i)) ?u = Inr (snd (?u ! i), parcel)"
      unfolding val .
    from property_search_selected [OF assms ne_of [OF len] sel'] f'
    show "\<exists>parcel.
            find (\<lambda>(p, a). a = snd (?u ! i)) ?u = Some (parcel, snd (?u ! i))
            \<and> property_search (st_selectbox (Some i)) sort_values search_address assessments =
                Inr (Some \<lparr>selected_address = snd (?u ! i), selected_parcel = parcel,
                  property_history = sort_values (filter (\<lambda>r. ParcelNumber r = parcel) ?all)\<rparr>)"
      by blast
  qed
  have hist: "sorts_by_TaxYear sort_values \<longrightarrow>
        (\<forall>v. ?search = Inr (Some v) \<longrightarrow>
           sorted (map TaxYear (property_history v))
           \<and> mset (property_history v) = mset (filter (\<lambda>r. ParcelNumber r = selected_parcel v) ?all))"
  proof (intro impI allI)
    fix v
    assume c: "sorts_by_TaxYear sort_values" and r: "?search = Inr (Some v)"
    from r assms obtain a p where
      v: "v = \<lparr>selected_address = a, selected_parcel = p,
             property_history = sort_values (filter (\<lambda>r. ParcelNumber r = p) ?all)\<rparr>"
      by (auto simp: property_search_def Let_def split: if_splits sum.splits)
    from c show "sorted (map TaxYear (property_history v))
           \<and> mset (property_history v) = mset (filter (\<lambda>r. ParcelNumber r = selected_parcel v) ?all)"
      unfolding v by (simp add: sorts_by_TaxYear_def)
  qed
  from zero one two untouched picked hist show ?thesis by blast
qed

theorem property_search_policy_witness:
  "property_search (st_selectbox None) stable_sort_TaxYear ''elm'' example_assessments = Inr None
   \<and> property_search (st_selectbox None) stable_sort_TaxYear ''oak'' example_assessments =
       Inr (Some \<lparr>selected_address = ''7 OAK AVE'', selected_parcel = ''410007000'',
         property_history = [example_rows ! 3]\<rparr>)
   \<and> unique_addresses [example_rows ! 0, example_rows ! 1, example_rows ! 2, example_rows ! 4] =
       [(''330021000'', ''123 MAIN ST''), (''330022000'', ''45 MAIN ST'')]
   \<and> property_search (st_selectbox None) stable_sort_TaxYear ''main'' example_assessments =
       Inr (Some \<lparr>selected_address = ''123 MAIN ST'', selected_parcel = ''330021000'',
         property_history = [example_rows ! 1, example_rows ! 4, example_rows ! 0]\<rparr>)
   \<and> property_search (st_selectbox (Some 1)) stable_sort_TaxYear ''main'' example_assessments =
       Inr (Some \<lparr>selected_address = ''45 MAIN ST'', selected_parcel = ''330022000'',
         property_history = [example_rows ! 2]\<rparr>)
   \<and> map TaxYear [example_rows ! 1, example_rows ! 4, example_rows ! 0] = [2021, 2022, 2023]"
proof -
  let ?main = "[example_rows ! 0, example_rows ! 1, example_rows ! 2, example_rows ! 4]"
  have m_elm: "matching_properties ''elm'' (map add_FullAddress example_assessments) = Inr []"
    by code_simp
  have m_oak: "matching_properties ''oak'' (map add_FullAddress example_assessments) =
      Inr [example_rows ! 3]"
    by code_simp
  have m_main: "matching_properties ''main'' (map add_FullAddress example_assessments) = Inr ?main"
    by code_simp
  have elm: "property_search (st_selectbox None) stable_sort_TaxYear ''elm'' example_assessments =
      Inr None"
    using property_search_policy [where search_address = "''elm''"
        and assessments = example_assessments and matching = "[]"
        and selectbox = "st_selectbox None" and sort_values = stable_sort_TaxYear, OF _ m_elm]
    by simp
  have pair_oak: "(\<lambda>r. (ParcelNumber r, FullAddress r)) ` set [example_rows ! 3] =
      {(''410007000'', ''7 OAK AVE'')}"
    by code_simp
  have hist_oak: "stable_sort_TaxYear (filter (\<lambda>r. ParcelNumber r = ''410007000'')
      (map add_FullAddress example_assessments)) = [example_rows ! 3]"
    by code_simp
  have oak: "property_search (st_selectbox None) stable_sort_TaxYear ''oak'' example_assessments =
       Inr (Some \<lparr>selected_address = ''7 OAK AVE'', selected_parcel = ''410007000'',
         property_history = [example_rows ! 3]\<rparr>)"
    using property_search_policy [where search_address = "''oak''"
        and assessments = example_assessments and matching = "[example_rows ! 3]"
        and p = "''410007000''" and a = "''7 OAK AVE''"
        and selectbox = "st_selectbox None" and sort_values = stable_sort_TaxYear, OF _ m_oak]
      pair_oak
    unfolding hist_oak by simp
  have uniq: "unique_addresses ?main =
      [(''330021000'', ''123 MAIN ST''), (''330022000'', ''45 MAIN ST'')]"
    by code_simp
  have hist_45: "stable_sort_TaxYear (filter (\<lambda>r. ParcelNumber r = ''330022000'')
      (map add_FullAddress example_assessments)) = [example_rows ! 2]"
    by code_simp
  have hist_123: "stable_sort_TaxYear (filter (\<lambda>r. ParcelNumber r = ''330021000'')
      (map add_FullAddress example_assessments)) =
        [example_rows ! 1, example_rows ! 4, example_rows ! 0]"
    by code_simp
  have untouched: "property_search (st_selectbox None) stable_sort_TaxYear ''main''
      example_assessments =
       Inr (Some \<lparr>selected_address = ''123 MAIN ST'', selected_parcel = ''330021000'',
         property_history = [example_rows ! 1, example_rows ! 4, example_rows ! 0]\<rparr>)"
    using property_search_policy [where search_address = "''main''"
        and assessments = example_assessments and matching = ?main
        and ?p0.0 = "''330021000''" and ?a0.0 = "''123 MAIN ST''"
        and rest = "[(''330022000'', ''45 MAIN ST'')]"
        and sort_values = stable_sort_TaxYear, OF _ m_main]
    unfolding uniq hist_123 by simp
  have second: "property_search (st_selectbox (Some 1)) stable_sort_TaxYear ''main''
      example_assessments =
       Inr (Some \<lparr>selected_address = ''45 MAIN ST'', selected_parcel = ''330022000'',
         property_history = [example_rows ! 2]\<rparr>)"
    using property_search_policy [where search_address = "''main''"
        and assessments = example_assessments and matching = ?main
        and i = 1 and sort_values = stable_sort_TaxYear, OF _ m_main]
    unfolding uniq by (auto simp: hist_45)
  have years: "map TaxYear [example_rows ! 1, example_rows ! 4, example_rows ! 0] =
      [2021, 2022, 2023]"
    by code_simp
  from elm oak uniq untouched second years show ?thesis by blast
qed

text \<open>
  Claim C7, as stated, fails. The query \<^verbatim>\<open>main\<close> matches two distinct addresses, the user
  has selected nothing, and the search returns the history of 123 MAIN ST all the same.
\<close>

theorem property_search_returns_history_without_selection:
  "matching_properties ''main'' (map add_FullAddress example_assessments) =
     Inr [example_rows ! 0, example_rows ! 1, example_rows ! 2, example_rows ! 4]
   \<and> unique_addresses [example_rows ! 0, example_rows ! 1, example_rows ! 2, example_rows ! 4] =
       [(''330021000'', ''123 MAIN ST''), (''330022000'', ''45 MAIN ST'')]
   \<and> property_search (st_selectbox None) stable_sort_TaxYear ''main'' example_assessments =
       Inr (Some \<lparr>selected_address = ''123 MAIN ST'', selected_parcel = ''330021000'',
         property_history = [example_rows ! 1, example_rows ! 4, example_rows ! 0]\<rparr>)"
proof -
  have m: "matching_properties ''main'' (map add_FullAddress example_assessments) =
     Inr [example_rows ! 0, example_rows ! 1, example_rows ! 2, example_rows ! 4]"
    by code_simp
  have u: "unique_addresses [example_rows ! 0, example_rows ! 1, example_rows ! 2, example_rows ! 4] =
       [(''330021000'', ''123 MAIN ST''), (''330022000'', ''45 MAIN ST'')]"
    by code_simp
  have s: "property_search (st_selectbox None) stable_sort_TaxYear ''main'' example_assessments =
       Inr (Some \<lparr>selected_address = ''123 MAIN ST'', selected_parcel = ''330021000'',
         property_history = [example_rows ! 1, example_rows ! 4, example_rows ! 0]\<rparr>)"
    by code_simp
  from m u s show ?thesis by blast
qed

end
